theory Spec2Isabelle
  imports Main
begin

section \<open>The start-up sequence of the PHOEBE GUI\<close>

text \<open>
  This theory embeds \<^verbatim>\<open>parse_startup_line\<close> and \<^verbatim>\<open>main\<close> of
  \<^verbatim>\<open>phoebe-gui/src/phoebe_gui_main.c\<close>. Both functions are sequences of calls into the
  PHOEBE library, GTK, libglade and the rest of the GUI. The embedding keeps the order of
  these calls as a list of events, the two globals the code assigns
  (\<^verbatim>\<open>PHOEBE_FILEFLAG\<close>, \<^verbatim>\<open>PHOEBE_FILENAME\<close>) as a record, and the end of the process
  (\<^verbatim>\<open>exit\<close>) as the left summand of the result. The widget factories inside
  \<^verbatim>\<open>#ifdef __MINGW32__\<close> are not compiled on other platforms and are left out.
\<close>

subsection \<open>Status codes, events and the collaborators\<close>

text \<open>
  Modelled from the spec: the status codes of the header \<^verbatim>\<open>phoebe/phoebe.h\<close>, which is not
  part of the sources at hand. The code names \<^verbatim>\<open>SUCCESS\<close> and three configuration
  conditions; the interface of the configuration subsystem allows any other error code,
  which \<open>ERROR_OTHER\<close> stands for.
\<close>

datatype status =
    SUCCESS
  | ERROR_PHOEBE_CONFIG_SUPPORTED_FILE
  | ERROR_PHOEBE_CONFIG_LEGACY_FILE
  | ERROR_PHOEBE_CONFIG_NOT_FOUND
  | ERROR_OTHER nat

text \<open>
  Modelled from the spec: the type tag passed to \<^verbatim>\<open>phoebe_config_entry_add\<close>; the code at
  hand only uses \<^verbatim>\<open>TYPE_BOOL\<close>.
\<close>

datatype PHOEBE_type = TYPE_INT | TYPE_BOOL | TYPE_DOUBLE | TYPE_STRING

text \<open>
  One event per call that leaves the two functions, in the order of the calls. The call
  \<^verbatim>\<open>phoebe_open_parameter_file\<close> is recorded together with the status it returned.
\<close>

datatype event =
    GtkSetLocale
  | GtkInit
  | GladeInit
  | PhoebeInit
  | PhoebeConfigEntryAdd PHOEBE_type string bool
  | PhoebeConfigure
  | PhoebeGuiInit
  | Printf string
  | PhoebeOpenParameterFile string status
  | PhoebeGuiOutput string
  | GuiReinitTreeviews
  | GuiSetValuesToWidgets
  | GuiNotice string string
  | GuiShowConfigurationDialog
  | GtkMain
  | PhoebeGuiQuit
  | PhoebeQuit

text \<open>
  What the code takes from outside: the two release macros, the status returned by
  \<^verbatim>\<open>phoebe_init\<close> and by \<^verbatim>\<open>phoebe_configure\<close>, the status returned by
  \<^verbatim>\<open>phoebe_open_parameter_file\<close> (which may depend on everything the process has done so
  far, hence on the events up to the call), and the two functions that turn a status into
  a message.
\<close>

record env =
  PHOEBE_GUI_RELEASE_NAME :: string
  PHOEBE_GUI_RELEASE_DATE :: string
  phoebe_init :: status
  phoebe_configure :: status
  phoebe_open_parameter_file :: "event list \<Rightarrow> string \<Rightarrow> status"
  phoebe_error :: "status \<Rightarrow> string"
  phoebe_gui_error :: "status \<Rightarrow> string"

text \<open>
  The state of the process: the two globals, and the events so far. The collaborators
  are taken not to assign the two globals during start-up.
\<close>

record session =
  PHOEBE_FILEFLAG :: bool
  PHOEBE_FILENAME :: string
  trace :: "event list"

text \<open>
  A call either ends the process with an exit status, or returns a value; both carry the
  state reached.
\<close>

type_synonym 'a proc = "(int \<times> session) + ('a \<times> session)"

definition emit :: "event \<Rightarrow> session \<Rightarrow> session" where
  "emit e st = st\<lparr>trace := trace st @ [e]\<rparr>"

definition emits :: "event list \<Rightarrow> session \<Rightarrow> session" where
  "emits es st = st\<lparr>trace := trace st @ es\<rparr>"

definition bind_proc :: "'a proc \<Rightarrow> ('a \<Rightarrow> session \<Rightarrow> 'b proc) \<Rightarrow> 'b proc" where
  "bind_proc m f = (case m of Inl x \<Rightarrow> Inl x | Inr (r, st) \<Rightarrow> f r st)"

definition final :: "'a proc \<Rightarrow> session" where
  "final m = (case m of Inl (c, st) \<Rightarrow> st | Inr (r, st) \<Rightarrow> st)"

definition events :: "'a proc \<Rightarrow> event list" where
  "events m = trace (final m)"

definition newline :: string where
  "newline = [CHR 0x0A]"

text \<open>
  Modelled from the spec: \<^verbatim>\<open>phoebe_quit\<close> is a function of the PHOEBE library, not part of
  the sources at hand. The spec describes it as the teardown of the scientific engine
  (in \<^verbatim>\<open>main\<close>) and as terminating the process with success status (in
  \<^verbatim>\<open>parse_startup_line\<close>): it is one event, followed by the end of the process with
  status 0.
\<close>

definition phoebe_quit :: "session \<Rightarrow> unit proc" where
  "phoebe_quit st = Inl (0, emit PhoebeQuit st)"

subsection \<open>\<^verbatim>\<open>parse_startup_line\<close>\<close>

text \<open>The four \<^verbatim>\<open>printf\<close> calls of the help screen (lines 122 to 125).\<close>

definition usage_text :: "env \<Rightarrow> event list" where
  "usage_text env =
     [Printf (newline @ PHOEBE_GUI_RELEASE_NAME env
              @ '' command line arguments: [-hv] [parameter_file]'' @ newline @ newline),
      Printf (''  -h, --help, -?      ..  this help screen'' @ newline),
      Printf (''  -v, --version       ..  display PHOEBE version and exit'' @ newline),
      Printf newline]"

text \<open>The two \<^verbatim>\<open>printf\<close> calls of the version screen (lines 131 and 132).\<close>

definition version_text :: "env \<Rightarrow> event list" where
  "version_text env =
     [Printf (newline @ PHOEBE_GUI_RELEASE_NAME env @ '', '' @ PHOEBE_GUI_RELEASE_DATE env
              @ newline),
      Printf (''  Send comments and/or requests to phoebe-discuss@lists.sourceforge.net''
              @ newline @ newline)]"

text \<open>
  \<^verbatim>\<open>argv[i][0]\<close>: the first character of a C string; of the empty string it is the
  terminating NUL.
\<close>

definition first_char :: "string \<Rightarrow> char" where
  "first_char a = (case a of [] \<Rightarrow> CHR 0x00 | c # cs \<Rightarrow> c)"

text \<open>Lines 119 to 127: the first \<^verbatim>\<open>if\<close> of the loop body.\<close>

definition help_switch :: "env \<Rightarrow> string \<Rightarrow> session \<Rightarrow> unit proc" where
  "help_switch env a st =
     (if a = ''-h'' \<or> a = ''-?'' \<or> a = ''--help''
      then phoebe_quit (emits (usage_text env) st)
      else Inr ((), st))"

text \<open>Lines 129 to 134: the second \<^verbatim>\<open>if\<close> of the loop body.\<close>

definition version_switch :: "env \<Rightarrow> string \<Rightarrow> session \<Rightarrow> unit proc" where
  "version_switch env a st =
     (if a = ''-v'' \<or> a = ''--version''
      then phoebe_quit (emits (version_text env) st)
      else Inr ((), st))"

text \<open>Lines 142 to 150: opening the parameter file named by the argument.\<close>

definition open_argument :: "env \<Rightarrow> string \<Rightarrow> session \<Rightarrow> unit proc" where
  "open_argument env a st =
     (let status = phoebe_open_parameter_file env (trace st) a;
          st1 = emit (PhoebeOpenParameterFile a status) st
      in if status \<noteq> SUCCESS
         then Inr ((), emit (PhoebeGuiOutput (phoebe_error env status)) st1)
         else Inr ((), (emits [GuiReinitTreeviews, GuiSetValuesToWidgets] st1)
                          \<lparr>PHOEBE_FILEFLAG := True, PHOEBE_FILENAME := a\<rparr>))"

text \<open>Lines 136 to 151: the third \<^verbatim>\<open>if\<close> of the loop body.\<close>

definition file_argument :: "env \<Rightarrow> string \<Rightarrow> session \<Rightarrow> unit proc" where
  "file_argument env a st =
     (if first_char a \<noteq> CHR ''-'' then open_argument env a st else Inr ((), st))"

text \<open>The loop body: the three \<^verbatim>\<open>if\<close> statements one after the other.\<close>

definition parse_argument :: "env \<Rightarrow> string \<Rightarrow> session \<Rightarrow> unit proc" where
  "parse_argument env a st =
     bind_proc (help_switch env a st) (\<lambda>_ st1.
     bind_proc (version_switch env a st1) (\<lambda>_ st2.
     file_argument env a st2))"

text \<open>The loop over \<^verbatim>\<open>argv[1]\<close>, ..., \<^verbatim>\<open>argv[argc - 1]\<close>, as recursion over these.\<close>

fun parse_arguments :: "env \<Rightarrow> string list \<Rightarrow> session \<Rightarrow> unit proc" where
  "parse_arguments env [] st = Inr ((), st)"
| "parse_arguments env (a # as) st =
     bind_proc (parse_argument env a st) (\<lambda>_ st1. parse_arguments env as st1)"

text \<open>
  \<^verbatim>\<open>parse_startup_line (argc, argv)\<close>, with \<open>argv\<close> the list of the \<open>argc\<close> arguments:
  the loop starts at index 1, and the function returns \<^verbatim>\<open>SUCCESS\<close>.
\<close>

definition parse_startup_line :: "env \<Rightarrow> string list \<Rightarrow> session \<Rightarrow> status proc" where
  "parse_startup_line env argv st =
     bind_proc (parse_arguments env (drop 1 argv) st) (\<lambda>_ st1. Inr (SUCCESS, st1))"

subsection \<open>\<^verbatim>\<open>main\<close>\<close>

text \<open>Lines 185 to 193: the value of \<^verbatim>\<open>configswitch\<close>.\<close>

definition configswitch :: "status \<Rightarrow> bool" where
  "configswitch status =
     (status = ERROR_PHOEBE_CONFIG_SUPPORTED_FILE \<or>
      status = ERROR_PHOEBE_CONFIG_LEGACY_FILE \<or>
      status = ERROR_PHOEBE_CONFIG_NOT_FOUND)"

definition welcome_notice :: event where
  "welcome_notice = GuiNotice ''Welcome to PHOEBE!''
     ''PHOEBE will create a configuration directory and take you to the Settings window.''"

definition legacy_notice :: event where
  "legacy_notice = GuiNotice ''Importing legacy configuration file''
     ''PHOEBE imported a legacy (pre-0.30) configuration file. Please review your settings and click on Save to store them permanently.''"

definition recent_notice :: event where
  "recent_notice = GuiNotice ''Importing recent configuration file''
     ''PHOEBE imported your previous configuration file. Please review your settings and click on Save to store them permanently.''"

text \<open>Lines 199 to 207: the three notices and the configuration dialog.\<close>

definition announce_configuration :: "status \<Rightarrow> bool \<Rightarrow> session \<Rightarrow> session" where
  "announce_configuration status cswitch st =
     (let st1 = (if status = ERROR_PHOEBE_CONFIG_NOT_FOUND then emit welcome_notice st else st);
          st2 = (if status = ERROR_PHOEBE_CONFIG_LEGACY_FILE then emit legacy_notice st1 else st1);
          st3 = (if status = ERROR_PHOEBE_CONFIG_SUPPORTED_FILE then emit recent_notice st2 else st2)
      in if cswitch then emit GuiShowConfigurationDialog st3 else st3)"

text \<open>Lines 209 to 216: the event loop, the two teardown calls and the return.\<close>

definition run_and_quit :: "session \<Rightarrow> status proc" where
  "run_and_quit st =
     bind_proc (phoebe_quit (emit PhoebeGuiQuit (emit GtkMain st)))
       (\<lambda>_ st1. Inr (SUCCESS, st1))"

text \<open>The two options registered at lines 181 and 182.\<close>

definition gui_options :: "event list" where
  "gui_options =
     [PhoebeConfigEntryAdd TYPE_BOOL ''GUI_CONFIRM_ON_OVERWRITE'' True,
      PhoebeConfigEntryAdd TYPE_BOOL ''GUI_BEEP_AFTER_PLOT_AND_FIT'' False]"

text \<open>Lines 180 to 216: \<^verbatim>\<open>main\<close> once \<^verbatim>\<open>phoebe_init\<close> has returned \<^verbatim>\<open>SUCCESS\<close>.\<close>

definition main_initialised :: "env \<Rightarrow> string list \<Rightarrow> session \<Rightarrow> status proc" where
  "main_initialised env argv st =
     (let st1 = emits gui_options st;
          status = phoebe_configure env;
          st2 = emit PhoebeConfigure st1;
          cswitch = configswitch status;
          st3 = emit PhoebeGuiInit st2
      in bind_proc (parse_startup_line env argv st3) (\<lambda>_ st4.
           run_and_quit (announce_configuration status cswitch st4)))"

text \<open>
  \<^verbatim>\<open>main (argc, argv)\<close>, started with the two globals at \<open>flag\<close> and \<open>name\<close>.
  \<open>argv\<close> is the argument vector as \<^verbatim>\<open>gtk_init\<close> leaves it. \<^verbatim>\<open>exit (0)\<close> at line
  177 ends the process with status 0.
\<close>

definition main :: "env \<Rightarrow> string list \<Rightarrow> bool \<Rightarrow> string \<Rightarrow> status proc" where
  "main env argv flag name =
     (let st = emits [GtkSetLocale, GtkInit, GladeInit]
                 \<lparr>PHOEBE_FILEFLAG = flag, PHOEBE_FILENAME = name, trace = []\<rparr>;
          status = phoebe_init env;
          st1 = emit PhoebeInit st
      in if status \<noteq> SUCCESS
         then Inl (0, emit (Printf (phoebe_gui_error env status)) st1)
         else main_initialised env argv st1)"

subsection \<open>Example inputs\<close>

text \<open>
  An environment for the examples: every parameter file opens except
  \<^verbatim>\<open>badpath.phoebe\<close>.
\<close>

definition example_env :: env where
  "example_env =
     \<lparr>PHOEBE_GUI_RELEASE_NAME = ''PHOEBE-gui 0.32'',
      PHOEBE_GUI_RELEASE_DATE = ''2010-04-01'',
      phoebe_init = SUCCESS,
      phoebe_configure = SUCCESS,
      phoebe_open_parameter_file =
        (\<lambda>tr p. if p = ''badpath.phoebe'' then ERROR_OTHER 1 else SUCCESS),
      phoebe_error = (\<lambda>s. ''Error opening parameter file''),
      phoebe_gui_error = (\<lambda>s. ''PHOEBE could not be initialised'')\<rparr>"

definition example_session :: session where
  "example_session = \<lparr>PHOEBE_FILEFLAG = False, PHOEBE_FILENAME = ''Undefined'', trace = []\<rparr>"

subsection \<open>The vocabulary of the specification\<close>

text \<open>
  The specification describes the command line in two stages: a classification of each
  token as an action, and the interpretation of the actions in order. The source has no
  such stages; the definitions of this subsection follow the specification's words, and
  are compared with the source below.
\<close>

datatype ArgAction = Help | Version | ParamFile string | Unrecognized string

definition is_help :: "string \<Rightarrow> bool" where
  "is_help t = (t = ''-h'' \<or> t = ''-?'' \<or> t = ''--help'')"

definition is_version :: "string \<Rightarrow> bool" where
  "is_version t = (t = ''-v'' \<or> t = ''--version'')"

definition has_leading_dash :: "string \<Rightarrow> bool" where
  "has_leading_dash t = (case t of [] \<Rightarrow> False | c # cs \<Rightarrow> c = CHR ''-'')"

definition classify_spec :: "string \<Rightarrow> ArgAction" where
  "classify_spec t =
     (if is_help t then Help
      else if is_version t then Version
      else if has_leading_dash t then Unrecognized t
      else ParamFile t)"

text \<open>
  The interpretation of one action: help and version print their text and end the process
  with success status, a parameter file is handed to the loader (lines 142 to 150 of the
  source), an unrecognised option is ignored.
\<close>

fun perform_spec :: "env \<Rightarrow> ArgAction \<Rightarrow> session \<Rightarrow> unit proc" where
  "perform_spec env Help st = phoebe_quit (emits (usage_text env) st)"
| "perform_spec env Version st = phoebe_quit (emits (version_text env) st)"
| "perform_spec env (ParamFile p) st = open_argument env p st"
| "perform_spec env (Unrecognized t) st = Inr ((), st)"

fun perform_all_spec :: "env \<Rightarrow> ArgAction list \<Rightarrow> session \<Rightarrow> unit proc" where
  "perform_all_spec env [] st = Inr ((), st)"
| "perform_all_spec env (x # xs) st =
     bind_proc (perform_spec env x st) (\<lambda>_ st1. perform_all_spec env xs st1)"

text \<open>The text a help or version token prints.\<close>

definition switch_text :: "env \<Rightarrow> string \<Rightarrow> event list" where
  "switch_text env t = (if is_help t then usage_text env else version_text env)"

text \<open>
  The configuration statuses of the specification, the status code of the source each
  stands for, and what the specification's start-up decision shows for each.
\<close>

datatype ConfigStatus = Current | ImportedSupported | ImportedLegacy | NotFound

fun status_of :: "ConfigStatus \<Rightarrow> status" where
  "status_of Current = SUCCESS"
| "status_of ImportedSupported = ERROR_PHOEBE_CONFIG_SUPPORTED_FILE"
| "status_of ImportedLegacy = ERROR_PHOEBE_CONFIG_LEGACY_FILE"
| "status_of NotFound = ERROR_PHOEBE_CONFIG_NOT_FOUND"

fun decision_spec :: "ConfigStatus \<Rightarrow> event list" where
  "decision_spec NotFound = [welcome_notice, GuiShowConfigurationDialog]"
| "decision_spec ImportedLegacy = [legacy_notice, GuiShowConfigurationDialog]"
| "decision_spec ImportedSupported = [recent_notice, GuiShowConfigurationDialog]"
| "decision_spec Current = []"

subsection \<open>Reading a run\<close>

text \<open>How a call ended: the exit status of the process, or the value returned.\<close>

definition outcome :: "'a proc \<Rightarrow> int + 'a" where
  "outcome m = (case m of Inl (c, st) \<Rightarrow> Inl c | Inr (r, st) \<Rightarrow> Inr r)"

text \<open>The events a call added to those of the state it started from.\<close>

definition new_events :: "session \<Rightarrow> 'a proc \<Rightarrow> event list" where
  "new_events st m = drop (length (trace st)) (events m)"

text \<open>The state of \<^verbatim>\<open>main\<close> when it calls \<^verbatim>\<open>parse_startup_line\<close> (line 197).\<close>

definition before_parsing :: "bool \<Rightarrow> string \<Rightarrow> session" where
  "before_parsing flag name =
     \<lparr>PHOEBE_FILEFLAG = flag, PHOEBE_FILENAME = name,
      trace = [GtkSetLocale, GtkInit, GladeInit, PhoebeInit] @ gui_options
              @ [PhoebeConfigure, PhoebeGuiInit]\<rparr>"

text \<open>
  The paths passed to \<^verbatim>\<open>phoebe_open_parameter_file\<close>, the paths it opened with
  \<^verbatim>\<open>SUCCESS\<close>, the messages sent to \<^verbatim>\<open>phoebe_gui_output\<close>, and the number of
  refreshes of the user interface (\<^verbatim>\<open>gui_reinit_treeviews\<close> followed by
  \<^verbatim>\<open>gui_set_values_to_widgets\<close>), in a list of events.
\<close>

fun opened_paths :: "event list \<Rightarrow> string list" where
  "opened_paths [] = []"
| "opened_paths (PhoebeOpenParameterFile p s # es) = p # opened_paths es"
| "opened_paths (e # es) = opened_paths es"

fun loaded_paths :: "event list \<Rightarrow> string list" where
  "loaded_paths [] = []"
| "loaded_paths (PhoebeOpenParameterFile p s # es) =
     (if s = SUCCESS then p # loaded_paths es else loaded_paths es)"
| "loaded_paths (e # es) = loaded_paths es"

fun diagnostics :: "event list \<Rightarrow> string list" where
  "diagnostics [] = []"
| "diagnostics (PhoebeGuiOutput m # es) = m # diagnostics es"
| "diagnostics (e # es) = diagnostics es"

fun refreshes :: "event list \<Rightarrow> nat" where
  "refreshes (GuiReinitTreeviews # GuiSetValuesToWidgets # es) = Suc (refreshes es)"
| "refreshes (e # es) = refreshes es"
| "refreshes [] = 0"

text \<open>The events that follow the first occurrence of an event.\<close>

definition events_after :: "event \<Rightarrow> event list \<Rightarrow> event list" where
  "events_after e tr = drop 1 (dropWhile (\<lambda>x. x \<noteq> e) tr)"

section \<open>Properties\<close>

lemma bind_proc_Inl [simp]: "bind_proc (Inl x) f = Inl x"
  by (simp add: bind_proc_def)

lemma bind_proc_Inr [simp]: "bind_proc (Inr (r, st)) f = f r st"
  by (simp add: bind_proc_def)

lemma final_Inl [simp]: "final (Inl (c, st)) = st"
  by (simp add: final_def)

lemma final_Inr [simp]: "final (Inr (r, st)) = st"
  by (simp add: final_def)

lemma trace_emit [simp]: "trace (emit e st) = trace st @ [e]"
  by (simp add: emit_def)

lemma trace_emits [simp]: "trace (emits es st) = trace st @ es"
  by (simp add: emits_def)

lemma globals_emit [simp]:
  "PHOEBE_FILEFLAG (emit e st) = PHOEBE_FILEFLAG st"
  "PHOEBE_FILENAME (emit e st) = PHOEBE_FILENAME st"
  by (simp_all add: emit_def)

lemma globals_emits [simp]:
  "PHOEBE_FILEFLAG (emits es st) = PHOEBE_FILEFLAG st"
  "PHOEBE_FILENAME (emits es st) = PHOEBE_FILENAME st"
  by (simp_all add: emits_def)

lemma emits_Nil [simp]: "emits [] st = st"
  by (simp add: emits_def)

lemma emit_as_emits: "emit e st = emits [e] st"
  by (simp add: emit_def emits_def)

lemma emits_emits [simp]: "emits es (emits ds st) = emits (ds @ es) st"
  by (simp add: emits_def)

subsection \<open>Failure of the engine initialisation\<close>

text \<open>
  C8. If \<^verbatim>\<open>phoebe_init\<close> returns a status other than \<^verbatim>\<open>SUCCESS\<close>, the process prints
  the diagnostic and ends at once: after the call of \<^verbatim>\<open>phoebe_init\<close> the only event is
  the \<^verbatim>\<open>printf\<close> of the diagnostic. No option is registered, the configuration is not
  resolved, no argument is parsed, no notice or dialog is shown, the event loop is not
  entered and nothing is torn down; the two globals keep their values.
\<close>

theorem init_failure_terminates_immediately:
  assumes "phoebe_init env \<noteq> SUCCESS"
  shows "main env argv flag name =
           Inl (0, \<lparr>PHOEBE_FILEFLAG = flag, PHOEBE_FILENAME = name,
                    trace = [GtkSetLocale, GtkInit, GladeInit, PhoebeInit,
                             Printf (phoebe_gui_error env (phoebe_init env))]\<rparr>)"
  using assms by (simp add: main_def emit_def emits_def)

theorem init_failure_terminates_immediately_witness:
  "phoebe_init (example_env\<lparr>phoebe_init := ERROR_OTHER 7\<rparr>) \<noteq> SUCCESS \<and>
   main (example_env\<lparr>phoebe_init := ERROR_OTHER 7\<rparr>) [''phoebe-gui'', ''model.phoebe''] False ''Undefined'' =
     Inl (0, \<lparr>PHOEBE_FILEFLAG = False, PHOEBE_FILENAME = ''Undefined'',
              trace = [GtkSetLocale, GtkInit, GladeInit, PhoebeInit,
                       Printf ''PHOEBE could not be initialised'']\<rparr>)"
  using init_failure_terminates_immediately
    [of "example_env\<lparr>phoebe_init := ERROR_OTHER 7\<rparr>" "[''phoebe-gui'', ''model.phoebe'']" False "''Undefined''"]
  by (simp add: example_env_def)


subsection \<open>The loop of \<^verbatim>\<open>parse_startup_line\<close>, token by token\<close>

lemma outcome_simps [simp]:
  "outcome (Inl (c, st)) = Inl c"
  "outcome (Inr (r, st)) = Inr r"
  by (simp_all add: outcome_def)

lemma events_simps [simp]:
  "events (Inl (c, st)) = trace st"
  "events (Inr (r, st)) = trace st"
  by (simp_all add: events_def)

lemma is_help_leading_dash: "is_help t \<Longrightarrow> has_leading_dash t"
  by (auto simp: is_help_def has_leading_dash_def)

lemma is_version_leading_dash: "is_version t \<Longrightarrow> has_leading_dash t"
  by (auto simp: is_version_def has_leading_dash_def)

lemma first_char_dash: "(first_char t = CHR ''-'') = has_leading_dash t"
  by (cases t) (simp_all add: first_char_def has_leading_dash_def)

lemma help_switch_eq:
  "help_switch env t st =
     (if is_help t then phoebe_quit (emits (usage_text env) st) else Inr ((), st))"
  by (simp add: help_switch_def is_help_def)

lemma version_switch_eq:
  "version_switch env t st =
     (if is_version t then phoebe_quit (emits (version_text env) st) else Inr ((), st))"
  by (simp add: version_switch_def is_version_def)

lemma file_argument_eq:
  "file_argument env t st =
     (if has_leading_dash t then Inr ((), st) else open_argument env t st)"
  by (simp add: file_argument_def first_char_dash)

lemma parse_argument_classified:
  "parse_argument env t st = perform_spec env (classify_spec t) st"
  by (simp add: parse_argument_def classify_spec_def help_switch_eq version_switch_eq
      file_argument_eq phoebe_quit_def is_help_leading_dash is_version_leading_dash)

lemma parse_arguments_classified:
  "parse_arguments env ts st = perform_all_spec env (map classify_spec ts) st"
  by (induction ts arbitrary: st)
     (simp_all add: parse_argument_classified bind_proc_def split: sum.splits)

text \<open>
  C2. The loop of \<^verbatim>\<open>parse_startup_line\<close> treats every token as the action the
  specification's classification gives it, in the order of the tokens: a token equal to
  \<^verbatim>\<open>-h\<close>, \<^verbatim>\<open>-?\<close> or \<^verbatim>\<open>--help\<close> as \<open>Help\<close>, a token equal to \<^verbatim>\<open>-v\<close> or
  \<^verbatim>\<open>--version\<close> as \<open>Version\<close>, any other token whose first character is \<^verbatim>\<open>-\<close> as
  \<open>Unrecognized\<close> (nothing is done), and every remaining token as \<open>ParamFile\<close> of that
  token. The three \<^verbatim>\<open>if\<close> statements of the loop body, which are not exclusive as
  written, never fire together: one token is one action. The first conjunct is about one
  token, the second about the tokens after the program name, the third about
  \<^verbatim>\<open>parse_startup_line\<close> applied to the whole argument vector.
\<close>

theorem parse_startup_line_classifies:
  "parse_argument env t st = perform_spec env (classify_spec t) st \<and>
   parse_arguments env ts st = perform_all_spec env (map classify_spec ts) st \<and>
   parse_startup_line env argv st =
     bind_proc (perform_all_spec env (map classify_spec (drop 1 argv)) st)
       (\<lambda>_ st1. Inr (SUCCESS, st1))"
  by (simp add: parse_argument_classified parse_arguments_classified parse_startup_line_def)


text \<open>What one argument does, case by case.\<close>

lemma parse_argument_cases:
  "parse_argument env t st =
     (if is_help t then Inl (0, emits (usage_text env @ [PhoebeQuit]) st)
      else if is_version t then Inl (0, emits (version_text env @ [PhoebeQuit]) st)
      else if has_leading_dash t then Inr ((), st)
      else open_argument env t st)"
  by (simp add: parse_argument_classified classify_spec_def phoebe_quit_def emit_as_emits)

lemma open_argument_cases:
  "open_argument env p st =
     (if phoebe_open_parameter_file env (trace st) p \<noteq> SUCCESS
      then Inr ((), emits [PhoebeOpenParameterFile p (phoebe_open_parameter_file env (trace st) p),
                           PhoebeGuiOutput (phoebe_error env (phoebe_open_parameter_file env (trace st) p))] st)
      else Inr ((), (emits [PhoebeOpenParameterFile p SUCCESS, GuiReinitTreeviews,
                            GuiSetValuesToWidgets] st)
                       \<lparr>PHOEBE_FILEFLAG := True, PHOEBE_FILENAME := p\<rparr>))"
  by (simp add: open_argument_def Let_def emit_as_emits)

lemma parse_arguments_append:
  "parse_arguments env (xs @ ys) st =
     bind_proc (parse_arguments env xs st) (\<lambda>_ st1. parse_arguments env ys st1)"
  by (induction xs arbitrary: st) (simp_all add: bind_proc_def split: sum.splits prod.splits)

lemma parse_arguments_no_switch:
  "list_all (\<lambda>t. \<not> is_help t \<and> \<not> is_version t) ts \<Longrightarrow>
     outcome (parse_arguments env ts st) = Inr ()"
  by (induction ts arbitrary: st)
     (simp_all add: parse_argument_cases open_argument_cases)

lemma outcome_Inr_final: "outcome m = Inr r \<Longrightarrow> m = Inr (r, final m)"
  by (cases m) (auto simp: outcome_def final_def split: prod.splits)

lemma parse_arguments_outcome:
  "outcome (parse_arguments env ts st) = Inl 0 \<or> outcome (parse_arguments env ts st) = Inr ()"
  by (induction ts arbitrary: st)
     (simp_all add: parse_argument_cases open_argument_cases)

lemma parse_arguments_trace:
  "\<exists>es. events (parse_arguments env ts st) = trace st @ es"
proof (induction ts arbitrary: st)
  case Nil
  show ?case by simp
next
  case (Cons t ts)
  show ?case
  proof (cases "parse_argument env t st")
    case (Inl x)
    then show ?thesis
      by (cases x) (auto simp: parse_argument_cases open_argument_cases split: if_splits)
  next
    case (Inr y)
    obtain u st1 where y: "y = (u, st1)" by (cases y)
    from Inr y have "\<exists>ea. trace st1 = trace st @ ea"
      by (auto simp: parse_argument_cases open_argument_cases split: if_splits)
    then obtain ea where ea: "trace st1 = trace st @ ea" ..
    from Cons.IH [of st1] obtain es where "events (parse_arguments env ts st1) = trace st1 @ es" ..
    with Inr y ea show ?thesis by simp
  qed
qed


subsection \<open>The configuration status, the notice and the dialog\<close>

lemma announce_configuration_eq:
  "announce_configuration s (configswitch s) st =
     emits (if s = ERROR_PHOEBE_CONFIG_NOT_FOUND then [welcome_notice, GuiShowConfigurationDialog]
            else if s = ERROR_PHOEBE_CONFIG_LEGACY_FILE then [legacy_notice, GuiShowConfigurationDialog]
            else if s = ERROR_PHOEBE_CONFIG_SUPPORTED_FILE then [recent_notice, GuiShowConfigurationDialog]
            else []) st"
  by (simp add: announce_configuration_def configswitch_def emit_as_emits)

lemma run_and_quit_eq:
  "run_and_quit st = Inl (0, emits [GtkMain, PhoebeGuiQuit, PhoebeQuit] st)"
  by (simp add: run_and_quit_def phoebe_quit_def emit_as_emits)

lemma main_initialised_eq:
  "phoebe_init env = SUCCESS \<Longrightarrow>
   main env argv flag name =
     bind_proc (parse_startup_line env argv (before_parsing flag name)) (\<lambda>_ st4.
       run_and_quit (announce_configuration (phoebe_configure env)
                       (configswitch (phoebe_configure env)) st4))"
  by (simp add: main_def main_initialised_def before_parsing_def emit_def emits_def Let_def)

text \<open>
  C1. For each of the four configuration statuses, \<^verbatim>\<open>configswitch\<close> is set if and only
  if the status is not \<open>Current\<close>, and lines 199 to 207 emit exactly what the status is
  mapped to: the welcome notice for \<open>NotFound\<close>, the legacy-import notice for
  \<open>ImportedLegacy\<close>, the recent-import notice for \<open>ImportedSupported\<close>, each followed
  by the configuration dialog, and nothing for \<open>Current\<close>; so the dialog is shown if and
  only if the status is not \<open>Current\<close>. In a run of \<^verbatim>\<open>main\<close> whose
  engine initialisation succeeded, these events come right after
  \<^verbatim>\<open>parse_startup_line\<close> has returned, the notice before the dialog, and are followed by
  the event loop and the teardown. (When a help or version switch ends the process inside
  \<^verbatim>\<open>parse_startup_line\<close>, the run stops there: that is the \<open>Inl\<close> case of
  \<open>bind_proc\<close>.)
\<close>

theorem configuration_status_decides_notice_and_dialog:
  "configswitch (status_of cs) = (cs \<noteq> Current) \<and>
   (GuiShowConfigurationDialog \<in> set (decision_spec cs)) = (cs \<noteq> Current) \<and>
   announce_configuration (status_of cs) (configswitch (status_of cs)) st =
     emits (decision_spec cs) st \<and>
   (phoebe_init env = SUCCESS \<and> phoebe_configure env = status_of cs \<longrightarrow>
      main env argv flag name =
        bind_proc (parse_startup_line env argv (before_parsing flag name)) (\<lambda>_ st4.
          Inl (0, emits (decision_spec cs @ [GtkMain, PhoebeGuiQuit, PhoebeQuit]) st4)))"
proof (intro conjI impI)
  show "configswitch (status_of cs) = (cs \<noteq> Current)"
    by (cases cs) (simp_all add: configswitch_def)
  show "(GuiShowConfigurationDialog \<in> set (decision_spec cs)) = (cs \<noteq> Current)"
    by (cases cs) (simp_all add: welcome_notice_def legacy_notice_def recent_notice_def)
  show a: "announce_configuration (status_of cs) (configswitch (status_of cs)) st =
     emits (decision_spec cs) st" for st
    by (cases cs) (simp_all add: announce_configuration_eq)
  assume "phoebe_init env = SUCCESS \<and> phoebe_configure env = status_of cs"
  then show "main env argv flag name =
        bind_proc (parse_startup_line env argv (before_parsing flag name)) (\<lambda>_ st4.
          Inl (0, emits (decision_spec cs @ [GtkMain, PhoebeGuiQuit, PhoebeQuit]) st4))"
    by (simp add: main_initialised_eq a run_and_quit_eq)
qed

theorem configuration_status_decides_notice_and_dialog_witness:
  "phoebe_init (example_env\<lparr>phoebe_configure := ERROR_PHOEBE_CONFIG_NOT_FOUND\<rparr>) = SUCCESS \<and>
   phoebe_configure (example_env\<lparr>phoebe_configure := ERROR_PHOEBE_CONFIG_NOT_FOUND\<rparr>) = status_of NotFound \<and>
   main (example_env\<lparr>phoebe_configure := ERROR_PHOEBE_CONFIG_NOT_FOUND\<rparr>) [''phoebe-gui''] False ''Undefined'' =
     Inl (0, \<lparr>PHOEBE_FILEFLAG = False, PHOEBE_FILENAME = ''Undefined'',
              trace = [GtkSetLocale, GtkInit, GladeInit, PhoebeInit,
                       PhoebeConfigEntryAdd TYPE_BOOL ''GUI_CONFIRM_ON_OVERWRITE'' True,
                       PhoebeConfigEntryAdd TYPE_BOOL ''GUI_BEEP_AFTER_PLOT_AND_FIT'' False,
                       PhoebeConfigure, PhoebeGuiInit,
                       welcome_notice, GuiShowConfigurationDialog,
                       GtkMain, PhoebeGuiQuit, PhoebeQuit]\<rparr>)"
  using configuration_status_decides_notice_and_dialog
    [of NotFound example_session "example_env\<lparr>phoebe_configure := ERROR_PHOEBE_CONFIG_NOT_FOUND\<rparr>"
        "[''phoebe-gui'']" False "''Undefined''"]
  by (simp add: example_env_def parse_startup_line_def before_parsing_def gui_options_def emits_def)


subsection \<open>The help and version switches\<close>

lemma parse_argument_switch:
  "is_help t \<or> is_version t \<Longrightarrow>
   parse_argument env t st = Inl (0, emit PhoebeQuit (emits (switch_text env t) st))"
  by (auto simp: parse_argument_cases switch_text_def emit_as_emits)

text \<open>
  C3, amended. Let position \<open>i\<close> of the arguments hold a help or version token, with no
  help or version token before it. Then the loop runs the arguments before \<open>i\<close> in
  order and returns from each, prints the usage text (for a help token) or the version text
  (for a version token), calls \<^verbatim>\<open>phoebe_quit\<close>, and the process ends with status 0. The
  arguments after \<open>i\<close> play no part: the run is the run on the first \<open>i + 1\<close> arguments.
\<close>

theorem first_switch_ends_process:
  assumes "i < length ts"
    and "is_help (ts ! i) \<or> is_version (ts ! i)"
    and "list_all (\<lambda>t. \<not> is_help t \<and> \<not> is_version t) (take i ts)"
  shows "outcome (parse_arguments env (take i ts) st) = Inr () \<and>
         parse_arguments env ts st =
           Inl (0, emit PhoebeQuit (emits (switch_text env (ts ! i))
                     (final (parse_arguments env (take i ts) st)))) \<and>
         parse_arguments env ts st = parse_arguments env (take (Suc i) ts) st \<and>
         parse_startup_line env (a0 # ts) st =
           Inl (0, emit PhoebeQuit (emits (switch_text env (ts ! i))
                     (final (parse_arguments env (take i ts) st))))"
proof -
  have pre: "outcome (parse_arguments env (take i ts) st) = Inr ()"
    using assms(3) by (rule parse_arguments_no_switch)
  then obtain sti where ret: "parse_arguments env (take i ts) st = Inr ((), sti)"
    by (blast dest: outcome_Inr_final)
  then have fin: "final (parse_arguments env (take i ts) st) = sti"
    by simp
  have upto: "parse_arguments env (take i ts @ ts ! i # rest) st =
                Inl (0, emit PhoebeQuit (emits (switch_text env (ts ! i)) sti))" for rest
    by (simp add: parse_arguments_append ret parse_argument_switch [OF assms(2)])
  have "take i ts @ ts ! i # drop (Suc i) ts = ts"
    using assms(1) by (rule id_take_nth_drop [symmetric])
  with upto [of "drop (Suc i) ts"]
  have whole: "parse_arguments env ts st =
                 Inl (0, emit PhoebeQuit (emits (switch_text env (ts ! i)) sti))"
    by simp
  have "take (Suc i) ts = take i ts @ [ts ! i]"
    using assms(1) by (rule take_Suc_conv_app_nth)
  with upto [of "[]"]
  have short: "parse_arguments env (take (Suc i) ts) st =
                 Inl (0, emit PhoebeQuit (emits (switch_text env (ts ! i)) sti))"
    by simp
  show ?thesis
    using pre by (simp add: whole short fin parse_startup_line_def)
qed

theorem first_switch_ends_process_witness:
  "(2::nat) < length [''badpath.phoebe'', ''model.phoebe'', ''--version'', ''other.phoebe'', ''-h''] \<and>
   is_version ([''badpath.phoebe'', ''model.phoebe'', ''--version'', ''other.phoebe'', ''-h''] ! 2) \<and>
   list_all (\<lambda>t. \<not> is_help t \<and> \<not> is_version t)
     (take 2 [''badpath.phoebe'', ''model.phoebe'', ''--version'', ''other.phoebe'', ''-h'']) \<and>
   parse_arguments example_env
     [''badpath.phoebe'', ''model.phoebe'', ''--version'', ''other.phoebe'', ''-h''] example_session =
     Inl (0, \<lparr>PHOEBE_FILEFLAG = True, PHOEBE_FILENAME = ''model.phoebe'',
              trace = [PhoebeOpenParameterFile ''badpath.phoebe'' (ERROR_OTHER 1),
                       PhoebeGuiOutput ''Error opening parameter file'',
                       PhoebeOpenParameterFile ''model.phoebe'' SUCCESS,
                       GuiReinitTreeviews, GuiSetValuesToWidgets]
                      @ version_text example_env @ [PhoebeQuit]\<rparr>)"
proof -
  let ?ts = "[''badpath.phoebe'', ''model.phoebe'', ''--version'', ''other.phoebe'', ''-h'']"
  have h1: "(2::nat) < length ?ts"
    by simp
  have h2: "is_version (?ts ! 2)"
    by (simp add: is_version_def)
  have h3: "list_all (\<lambda>t. \<not> is_help t \<and> \<not> is_version t) (take 2 ?ts)"
    by (simp add: is_help_def is_version_def)
  have pre: "parse_arguments example_env (take 2 ?ts) example_session =
      Inr ((), \<lparr>PHOEBE_FILEFLAG = True, PHOEBE_FILENAME = ''model.phoebe'',
              trace = [PhoebeOpenParameterFile ''badpath.phoebe'' (ERROR_OTHER 1),
                       PhoebeGuiOutput ''Error opening parameter file'',
                       PhoebeOpenParameterFile ''model.phoebe'' SUCCESS,
                       GuiReinitTreeviews, GuiSetValuesToWidgets]\<rparr>)"
    by (simp add: is_help_def is_version_def parse_argument_cases open_argument_cases
        has_leading_dash_def example_env_def example_session_def emits_def)
  have shown: "switch_text example_env (?ts ! 2) = version_text example_env"
    by (simp add: switch_text_def is_help_def)
  from h2 have h2': "is_help (?ts ! 2) \<or> is_version (?ts ! 2)" ..
  have "parse_arguments example_env ?ts example_session =
           Inl (0, emit PhoebeQuit (emits (switch_text example_env (?ts ! 2))
                     (final (parse_arguments example_env (take 2 ?ts) example_session))))"
    using first_switch_ends_process [OF h1 h2' h3, of example_env example_session "''x''"]
    by blast
  then have "parse_arguments example_env ?ts example_session =
     Inl (0, \<lparr>PHOEBE_FILEFLAG = True, PHOEBE_FILENAME = ''model.phoebe'',
              trace = [PhoebeOpenParameterFile ''badpath.phoebe'' (ERROR_OTHER 1),
                       PhoebeGuiOutput ''Error opening parameter file'',
                       PhoebeOpenParameterFile ''model.phoebe'' SUCCESS,
                       GuiReinitTreeviews, GuiSetValuesToWidgets]
                      @ version_text example_env @ [PhoebeQuit]\<rparr>)"
    unfolding pre shown by (simp add: emit_def emits_def)
  with h1 h2 h3 show ?thesis by blast
qed

text \<open>
  C3 as stated fails for a help or version token that is not the first one: for the
  arguments \<^verbatim>\<open>-v -h\<close> position 1 holds a help token, but the process ends at position 0
  with the version text, and no line of the usage text is printed.
\<close>

theorem later_switch_counterexample:
  "is_help ([''-v'', ''-h''] ! 1) \<and>
   events (parse_arguments example_env [''-v'', ''-h''] example_session) =
     version_text example_env @ [PhoebeQuit] \<and>
   \<not> set (usage_text example_env)
        \<subseteq> set (events (parse_arguments example_env [''-v'', ''-h''] example_session))"
  by (simp add: is_help_def is_version_def parse_argument_cases example_session_def
      usage_text_def version_text_def example_env_def newline_def)


subsection \<open>Parameter files\<close>

lemma new_events_simps [simp]:
  "trace st' = trace st @ es \<Longrightarrow> new_events st (Inr (r, st')) = es"
  "trace st' = trace st @ es \<Longrightarrow> new_events st (Inl (c, st')) = es"
  by (simp_all add: new_events_def)

lemma open_argument_failure:
  "phoebe_open_parameter_file env (trace st) p \<noteq> SUCCESS \<Longrightarrow>
   open_argument env p st =
     Inr ((), emits [PhoebeOpenParameterFile p (phoebe_open_parameter_file env (trace st) p),
                     PhoebeGuiOutput (phoebe_error env (phoebe_open_parameter_file env (trace st) p))] st)"
  by (simp add: open_argument_cases)

lemma open_argument_success:
  "phoebe_open_parameter_file env (trace st) p = SUCCESS \<Longrightarrow>
   open_argument env p st =
     Inr ((), (emits [PhoebeOpenParameterFile p SUCCESS, GuiReinitTreeviews,
                      GuiSetValuesToWidgets] st)
                \<lparr>PHOEBE_FILEFLAG := True, PHOEBE_FILENAME := p\<rparr>)"
  by (simp add: open_argument_cases)

lemma parse_argument_path:
  "\<not> has_leading_dash t \<Longrightarrow> parse_argument env t st = open_argument env t st"
  using is_help_leading_dash [of t] is_version_leading_dash [of t]
  by (auto simp: parse_argument_cases)

lemma parse_arguments_paths:
  "list_all (\<lambda>t. \<not> has_leading_dash t) ts \<Longrightarrow>
   \<exists>st' es. parse_arguments env ts st = Inr ((), st') \<and> trace st' = trace st @ es \<and>
     opened_paths es = ts \<and>
     (PHOEBE_FILEFLAG st', PHOEBE_FILENAME st') =
       (case loaded_paths es of [] \<Rightarrow> (PHOEBE_FILEFLAG st, PHOEBE_FILENAME st)
        | q # qs \<Rightarrow> (True, last (q # qs))) \<and>
     refreshes es = length (loaded_paths es) \<and>
     length (diagnostics es) + length (loaded_paths es) = length ts"
proof (induction ts arbitrary: st)
  case Nil
  show ?case by simp
next
  case (Cons t ts)
  then have t: "\<not> has_leading_dash t" and ts: "list_all (\<lambda>t. \<not> has_leading_dash t) ts"
    by simp_all
  let ?s = "phoebe_open_parameter_file env (trace st) t"
  show ?case
  proof (cases "?s = SUCCESS")
    case True
    let ?st1 = "(emits [PhoebeOpenParameterFile t SUCCESS, GuiReinitTreeviews,
                      GuiSetValuesToWidgets] st)
                \<lparr>PHOEBE_FILEFLAG := True, PHOEBE_FILENAME := t\<rparr>"
    have step: "parse_argument env t st = Inr ((), ?st1)"
      using t True by (simp add: parse_argument_path open_argument_success)
    from Cons.IH [OF ts, of ?st1] obtain st' es where
      run: "parse_arguments env ts ?st1 = Inr ((), st')" and
      tr: "trace st' = trace ?st1 @ es" and
      op: "opened_paths es = ts" and
      gl: "(PHOEBE_FILEFLAG st', PHOEBE_FILENAME st') =
             (case loaded_paths es of [] \<Rightarrow> (PHOEBE_FILEFLAG ?st1, PHOEBE_FILENAME ?st1)
              | q # qs \<Rightarrow> (True, last (q # qs)))" and
      rf: "refreshes es = length (loaded_paths es)" and
      dg: "length (diagnostics es) + length (loaded_paths es) = length ts"
      by blast
    let ?es = "[PhoebeOpenParameterFile t SUCCESS, GuiReinitTreeviews, GuiSetValuesToWidgets] @ es"
    have "parse_arguments env (t # ts) st = Inr ((), st')"
      by (simp add: step run)
    moreover have "trace st' = trace st @ ?es"
      using tr by simp
    moreover have "opened_paths ?es = t # ts"
      using op by simp
    moreover have "(PHOEBE_FILEFLAG st', PHOEBE_FILENAME st') =
       (case loaded_paths ?es of [] \<Rightarrow> (PHOEBE_FILEFLAG st, PHOEBE_FILENAME st)
        | q # qs \<Rightarrow> (True, last (q # qs)))"
      using gl by (simp split: list.splits)
    moreover have "refreshes ?es = length (loaded_paths ?es)"
      using rf by simp
    moreover have "length (diagnostics ?es) + length (loaded_paths ?es) = length (t # ts)"
      using dg by simp
    ultimately show ?thesis by blast
  next
    case False
    let ?st1 = "emits [PhoebeOpenParameterFile t ?s, PhoebeGuiOutput (phoebe_error env ?s)] st"
    have step: "parse_argument env t st = Inr ((), ?st1)"
      using t False by (simp add: parse_argument_path open_argument_failure)
    from Cons.IH [OF ts, of ?st1] obtain st' es where
      run: "parse_arguments env ts ?st1 = Inr ((), st')" and
      tr: "trace st' = trace ?st1 @ es" and
      op: "opened_paths es = ts" and
      gl: "(PHOEBE_FILEFLAG st', PHOEBE_FILENAME st') =
             (case loaded_paths es of [] \<Rightarrow> (PHOEBE_FILEFLAG ?st1, PHOEBE_FILENAME ?st1)
              | q # qs \<Rightarrow> (True, last (q # qs)))" and
      rf: "refreshes es = length (loaded_paths es)" and
      dg: "length (diagnostics es) + length (loaded_paths es) = length ts"
      by blast
    let ?es = "[PhoebeOpenParameterFile t ?s, PhoebeGuiOutput (phoebe_error env ?s)] @ es"
    have "parse_arguments env (t # ts) st = Inr ((), st')"
      by (simp add: step run)
    moreover have "trace st' = trace st @ ?es"
      using tr by simp
    moreover have "opened_paths ?es = t # ts"
      using op by simp
    moreover have "(PHOEBE_FILEFLAG st', PHOEBE_FILENAME st') =
       (case loaded_paths ?es of [] \<Rightarrow> (PHOEBE_FILEFLAG st, PHOEBE_FILENAME st)
        | q # qs \<Rightarrow> (True, last (q # qs)))"
      using gl False by (simp split: list.splits)
    moreover have "refreshes ?es = length (loaded_paths ?es)"
      using rf False by simp
    moreover have "length (diagnostics ?es) + length (loaded_paths ?es) = length (t # ts)"
      using dg False by simp
    ultimately show ?thesis by blast
  qed
qed


text \<open>
  C5. Let \<open>p\<close> be a parameter-file path (a token without a leading \<^verbatim>\<open>-\<close>) for which
  \<^verbatim>\<open>phoebe_open_parameter_file\<close> returns a status \<open>s\<close> other than \<^verbatim>\<open>SUCCESS\<close>. Then
  the only events of the loop body are the call itself and the report of
  \<^verbatim>\<open>phoebe_error (s)\<close> through \<^verbatim>\<open>phoebe_gui_output\<close>; \<^verbatim>\<open>PHOEBE_FILEFLAG\<close> and
  \<^verbatim>\<open>PHOEBE_FILENAME\<close> are as before; and the loop goes on with the remaining arguments
  from that state. What going on means is spelt out for the argument that follows \<open>p\<close>:
  a path \<open>q\<close> that opens is loaded (refresh, flag true, name \<open>q\<close>); a path \<open>q\<close> that
  fails in its turn adds its own diagnostic and still leaves the globals alone; a help or
  version token \<open>h\<close> prints its text and ends the process, after the diagnostic for \<open>p\<close>;
  and when all the arguments \<open>ps\<close> after \<open>p\<close> are paths, the loop returns after passing
  \<open>p\<close> and every one of \<open>ps\<close>, in order, to \<^verbatim>\<open>phoebe_open_parameter_file\<close>, the first two
  events being the failed call and its diagnostic.
\<close>

theorem failed_load_keeps_session:
  assumes "\<not> has_leading_dash p"
    and "phoebe_open_parameter_file env (trace st) p = s"
    and "s \<noteq> SUCCESS"
  shows "parse_argument env p st =
           Inr ((), emits [PhoebeOpenParameterFile p s, PhoebeGuiOutput (phoebe_error env s)] st) \<and>
         PHOEBE_FILEFLAG (final (parse_argument env p st)) = PHOEBE_FILEFLAG st \<and>
         PHOEBE_FILENAME (final (parse_argument env p st)) = PHOEBE_FILENAME st \<and>
         parse_arguments env (p # rest) st =
           parse_arguments env rest
             (emits [PhoebeOpenParameterFile p s, PhoebeGuiOutput (phoebe_error env s)] st) \<and>
         (\<not> has_leading_dash q \<and>
          phoebe_open_parameter_file env
            (trace st @ [PhoebeOpenParameterFile p s, PhoebeGuiOutput (phoebe_error env s)]) q
            = SUCCESS \<longrightarrow>
            parse_arguments env [p, q] st =
              Inr ((), \<lparr>PHOEBE_FILEFLAG = True, PHOEBE_FILENAME = q,
                        trace = trace st @ [PhoebeOpenParameterFile p s,
                                            PhoebeGuiOutput (phoebe_error env s),
                                            PhoebeOpenParameterFile q SUCCESS,
                                            GuiReinitTreeviews, GuiSetValuesToWidgets]\<rparr>)) \<and>
         (\<not> has_leading_dash q \<and>
          phoebe_open_parameter_file env
            (trace st @ [PhoebeOpenParameterFile p s, PhoebeGuiOutput (phoebe_error env s)]) q
            = s2 \<and> s2 \<noteq> SUCCESS \<longrightarrow>
            parse_arguments env [p, q] st =
              Inr ((), emits [PhoebeOpenParameterFile p s, PhoebeGuiOutput (phoebe_error env s),
                              PhoebeOpenParameterFile q s2,
                              PhoebeGuiOutput (phoebe_error env s2)] st)) \<and>
         (is_help h \<or> is_version h \<longrightarrow>
            parse_arguments env (p # h # ignored) st =
              Inl (0, emits ([PhoebeOpenParameterFile p s, PhoebeGuiOutput (phoebe_error env s)]
                             @ switch_text env h @ [PhoebeQuit]) st)) \<and>
         (list_all (\<lambda>t. \<not> has_leading_dash t) ps \<longrightarrow>
            outcome (parse_arguments env (p # ps) st) = Inr () \<and>
            opened_paths (new_events st (parse_arguments env (p # ps) st)) = p # ps \<and>
            take 2 (new_events st (parse_arguments env (p # ps) st)) =
              [PhoebeOpenParameterFile p s, PhoebeGuiOutput (phoebe_error env s)])"
proof -
  let ?f = "[PhoebeOpenParameterFile p s, PhoebeGuiOutput (phoebe_error env s)]"
  let ?st1 = "emits ?f st"
  have step: "parse_argument env p st = Inr ((), ?st1)"
    using assms by (simp add: parse_argument_path open_argument_failure)
  have tr1: "trace ?st1 = trace st @ ?f"
    by simp
  have body: "parse_argument env p st = Inr ((), ?st1) \<and>
         PHOEBE_FILEFLAG (final (parse_argument env p st)) = PHOEBE_FILEFLAG st \<and>
         PHOEBE_FILENAME (final (parse_argument env p st)) = PHOEBE_FILENAME st \<and>
         parse_arguments env (p # rest) st = parse_arguments env rest ?st1"
    by (simp add: step)
  have loads: "parse_arguments env [p, q] st =
              Inr ((), \<lparr>PHOEBE_FILEFLAG = True, PHOEBE_FILENAME = q,
                        trace = trace st @ [PhoebeOpenParameterFile p s,
                                            PhoebeGuiOutput (phoebe_error env s),
                                            PhoebeOpenParameterFile q SUCCESS,
                                            GuiReinitTreeviews, GuiSetValuesToWidgets]\<rparr>)"
    if "\<not> has_leading_dash q \<and> phoebe_open_parameter_file env (trace st @ ?f) q = SUCCESS"
  proof -
    from that have "parse_argument env q ?st1 =
        Inr ((), \<lparr>PHOEBE_FILEFLAG = True, PHOEBE_FILENAME = q,
                        trace = trace st @ [PhoebeOpenParameterFile p s,
                                            PhoebeGuiOutput (phoebe_error env s),
                                            PhoebeOpenParameterFile q SUCCESS,
                                            GuiReinitTreeviews, GuiSetValuesToWidgets]\<rparr>)"
      by (simp add: parse_argument_path open_argument_success emits_def)
    then show ?thesis
      by (simp add: step)
  qed
  have fails: "parse_arguments env [p, q] st =
              Inr ((), emits [PhoebeOpenParameterFile p s, PhoebeGuiOutput (phoebe_error env s),
                              PhoebeOpenParameterFile q s2,
                              PhoebeGuiOutput (phoebe_error env s2)] st)"
    if "\<not> has_leading_dash q \<and> phoebe_open_parameter_file env (trace st @ ?f) q = s2 \<and>
        s2 \<noteq> SUCCESS"
  proof -
    from that have "parse_argument env q ?st1 =
        Inr ((), emits [PhoebeOpenParameterFile q s2, PhoebeGuiOutput (phoebe_error env s2)] ?st1)"
      by (simp add: parse_argument_path open_argument_failure)
    then show ?thesis
      by (simp add: step)
  qed
  have stops: "parse_arguments env (p # h # ignored) st =
              Inl (0, emits (?f @ switch_text env h @ [PhoebeQuit]) st)"
    if "is_help h \<or> is_version h"
  proof -
    from that have "parse_argument env h ?st1 =
        Inl (0, emit PhoebeQuit (emits (switch_text env h) ?st1))"
      by (rule parse_argument_switch)
    then show ?thesis
      by (simp add: step emit_as_emits)
  qed
  have paths: "outcome (parse_arguments env (p # ps) st) = Inr () \<and>
            opened_paths (new_events st (parse_arguments env (p # ps) st)) = p # ps \<and>
            take 2 (new_events st (parse_arguments env (p # ps) st)) = ?f"
    if ps: "list_all (\<lambda>t. \<not> has_leading_dash t) ps"
  proof -
    from parse_arguments_paths [OF ps, of env ?st1] obtain st' es where
      run: "parse_arguments env ps ?st1 = Inr ((), st')" and
      tr: "trace st' = trace ?st1 @ es" and
      op: "opened_paths es = ps"
      by blast
    have whole: "parse_arguments env (p # ps) st = Inr ((), st')"
      by (simp add: step run)
    have "trace st' = trace st @ (?f @ es)"
      using tr by simp
    then have new: "new_events st (parse_arguments env (p # ps) st) = ?f @ es"
      unfolding whole by (rule new_events_simps)
    have out: "outcome (parse_arguments env (p # ps) st) = Inr ()"
      unfolding whole by simp
    have "opened_paths (?f @ es) = p # ps" and "take 2 (?f @ es) = ?f"
      using op by simp_all
    with out show ?thesis
      unfolding new by blast
  qed
  from body loads fails stops paths show ?thesis
    by blast
qed

theorem failed_load_keeps_session_witness:
  "\<not> has_leading_dash ''badpath.phoebe'' \<and>
   phoebe_open_parameter_file example_env (trace example_session) ''badpath.phoebe'' = ERROR_OTHER 1 \<and>
   ERROR_OTHER 1 \<noteq> SUCCESS \<and>
   parse_argument example_env ''badpath.phoebe'' example_session =
     Inr ((), \<lparr>PHOEBE_FILEFLAG = False, PHOEBE_FILENAME = ''Undefined'',
               trace = [PhoebeOpenParameterFile ''badpath.phoebe'' (ERROR_OTHER 1),
                        PhoebeGuiOutput ''Error opening parameter file'']\<rparr>) \<and>
   \<not> has_leading_dash ''model.phoebe'' \<and>
   phoebe_open_parameter_file example_env
     (trace example_session @ [PhoebeOpenParameterFile ''badpath.phoebe'' (ERROR_OTHER 1),
        PhoebeGuiOutput (phoebe_error example_env (ERROR_OTHER 1))]) ''model.phoebe'' = SUCCESS \<and>
   parse_arguments example_env [''badpath.phoebe'', ''model.phoebe''] example_session =
     Inr ((), \<lparr>PHOEBE_FILEFLAG = True, PHOEBE_FILENAME = ''model.phoebe'',
               trace = [PhoebeOpenParameterFile ''badpath.phoebe'' (ERROR_OTHER 1),
                        PhoebeGuiOutput ''Error opening parameter file'',
                        PhoebeOpenParameterFile ''model.phoebe'' SUCCESS,
                        GuiReinitTreeviews, GuiSetValuesToWidgets]\<rparr>) \<and>
   is_help ''--help'' \<and>
   parse_arguments example_env [''badpath.phoebe'', ''--help'', ''model.phoebe''] example_session =
     Inl (0, \<lparr>PHOEBE_FILEFLAG = False, PHOEBE_FILENAME = ''Undefined'',
              trace = [PhoebeOpenParameterFile ''badpath.phoebe'' (ERROR_OTHER 1),
                       PhoebeGuiOutput ''Error opening parameter file'']
                      @ usage_text example_env @ [PhoebeQuit]\<rparr>) \<and>
   list_all (\<lambda>t. \<not> has_leading_dash t) [''model.phoebe'', ''other.phoebe''] \<and>
   outcome (parse_arguments example_env
              [''badpath.phoebe'', ''model.phoebe'', ''other.phoebe''] example_session) = Inr () \<and>
   opened_paths (new_events example_session
     (parse_arguments example_env
        [''badpath.phoebe'', ''model.phoebe'', ''other.phoebe''] example_session)) =
     [''badpath.phoebe'', ''model.phoebe'', ''other.phoebe'']"
proof -
  have h1: "\<not> has_leading_dash ''badpath.phoebe''"
    by (simp add: has_leading_dash_def)
  have h2: "phoebe_open_parameter_file example_env (trace example_session) ''badpath.phoebe''
              = ERROR_OTHER 1"
    by (simp add: example_env_def)
  have h3: "ERROR_OTHER 1 \<noteq> SUCCESS"
    by simp
  have q1: "\<not> has_leading_dash ''model.phoebe''"
    by (simp add: has_leading_dash_def)
  have q2: "phoebe_open_parameter_file example_env
     (trace example_session @ [PhoebeOpenParameterFile ''badpath.phoebe'' (ERROR_OTHER 1),
        PhoebeGuiOutput (phoebe_error example_env (ERROR_OTHER 1))]) ''model.phoebe'' = SUCCESS"
    by (simp add: example_env_def)
  have sw: "is_help ''--help''"
    by (simp add: is_help_def)
  have ps: "list_all (\<lambda>t. \<not> has_leading_dash t) [''model.phoebe'', ''other.phoebe'']"
    by (simp add: has_leading_dash_def)
  have e: "phoebe_error example_env (ERROR_OTHER 1) = ''Error opening parameter file''"
    by (simp add: example_env_def)
  have t: "trace example_session = []"
    by (simp add: example_session_def)
  have shown: "switch_text example_env ''--help'' = usage_text example_env"
    by (simp add: switch_text_def is_help_def)
  have plain: "emits es example_session =
      \<lparr>PHOEBE_FILEFLAG = False, PHOEBE_FILENAME = ''Undefined'', trace = es\<rparr>" for es
    by (simp add: emits_def example_session_def)
  note inst = failed_load_keeps_session
    [OF h1 h2 h3, of "[]" "''model.phoebe''" SUCCESS "''--help''" "[''model.phoebe'']"
       "[''model.phoebe'', ''other.phoebe'']"]
  have one: "parse_argument example_env ''badpath.phoebe'' example_session =
     Inr ((), \<lparr>PHOEBE_FILEFLAG = False, PHOEBE_FILENAME = ''Undefined'',
               trace = [PhoebeOpenParameterFile ''badpath.phoebe'' (ERROR_OTHER 1),
                        PhoebeGuiOutput ''Error opening parameter file'']\<rparr>)"
  proof -
    from inst have "parse_argument example_env ''badpath.phoebe'' example_session =
       Inr ((), emits [PhoebeOpenParameterFile ''badpath.phoebe'' (ERROR_OTHER 1),
                       PhoebeGuiOutput (phoebe_error example_env (ERROR_OTHER 1))]
                  example_session)"
      by blast
    then show ?thesis
      by (simp only: e plain)
  qed
  have two: "parse_arguments example_env [''badpath.phoebe'', ''model.phoebe''] example_session =
     Inr ((), \<lparr>PHOEBE_FILEFLAG = True, PHOEBE_FILENAME = ''model.phoebe'',
               trace = [PhoebeOpenParameterFile ''badpath.phoebe'' (ERROR_OTHER 1),
                        PhoebeGuiOutput ''Error opening parameter file'',
                        PhoebeOpenParameterFile ''model.phoebe'' SUCCESS,
                        GuiReinitTreeviews, GuiSetValuesToWidgets]\<rparr>)"
  proof -
    from inst q1 q2
    have "parse_arguments example_env [''badpath.phoebe'', ''model.phoebe''] example_session =
       Inr ((), \<lparr>PHOEBE_FILEFLAG = True, PHOEBE_FILENAME = ''model.phoebe'',
                 trace = trace example_session @
                   [PhoebeOpenParameterFile ''badpath.phoebe'' (ERROR_OTHER 1),
                    PhoebeGuiOutput (phoebe_error example_env (ERROR_OTHER 1)),
                    PhoebeOpenParameterFile ''model.phoebe'' SUCCESS,
                    GuiReinitTreeviews, GuiSetValuesToWidgets]\<rparr>)"
      by blast
    then show ?thesis
      by (simp only: e t append_Nil)
  qed
  have three: "parse_arguments example_env [''badpath.phoebe'', ''--help'', ''model.phoebe'']
       example_session =
     Inl (0, \<lparr>PHOEBE_FILEFLAG = False, PHOEBE_FILENAME = ''Undefined'',
              trace = [PhoebeOpenParameterFile ''badpath.phoebe'' (ERROR_OTHER 1),
                       PhoebeGuiOutput ''Error opening parameter file'']
                      @ usage_text example_env @ [PhoebeQuit]\<rparr>)"
  proof -
    from inst sw
    have "parse_arguments example_env [''badpath.phoebe'', ''--help'', ''model.phoebe'']
        example_session =
       Inl (0, emits ([PhoebeOpenParameterFile ''badpath.phoebe'' (ERROR_OTHER 1),
                       PhoebeGuiOutput (phoebe_error example_env (ERROR_OTHER 1))]
                      @ switch_text example_env ''--help'' @ [PhoebeQuit]) example_session)"
      by blast
    then show ?thesis
      by (simp only: e shown plain)
  qed
  from inst ps
  have four: "outcome (parse_arguments example_env
              [''badpath.phoebe'', ''model.phoebe'', ''other.phoebe''] example_session) = Inr () \<and>
     opened_paths (new_events example_session
       (parse_arguments example_env
          [''badpath.phoebe'', ''model.phoebe'', ''other.phoebe''] example_session)) =
       [''badpath.phoebe'', ''model.phoebe'', ''other.phoebe'']"
    by blast
  from h1 h2 h3 one q1 q2 two sw three ps four show ?thesis
    by blast
qed

text \<open>
  C4. Let all arguments be parameter-file paths (tokens without a leading \<^verbatim>\<open>-\<close>). Then
  the loop returns after passing every one of them, in order, to
  \<^verbatim>\<open>phoebe_open_parameter_file\<close>. A path \<open>p\<close> that opens with \<^verbatim>\<open>SUCCESS\<close> refreshes
  the user interface (\<^verbatim>\<open>gui_reinit_treeviews\<close>, \<^verbatim>\<open>gui_set_values_to_widgets\<close>) and sets
  \<^verbatim>\<open>PHOEBE_FILEFLAG\<close> to true and \<^verbatim>\<open>PHOEBE_FILENAME\<close> to \<open>p\<close>. So at the end the two
  globals are as at the start when no path opened, and otherwise true and the last path
  that opened; there is one refresh for each path that opened and one diagnostic for each
  path that did not. In particular, for \<^verbatim>\<open>badpath.phoebe model.phoebe\<close> with the first
  failing with status \<open>s\<close> and the second opening, the globals end as true and
  \<^verbatim>\<open>model.phoebe\<close>, with exactly one diagnostic, the one for the first path.
\<close>

theorem loaded_files_set_session:
  assumes "list_all (\<lambda>t. \<not> has_leading_dash t) ts"
  shows "outcome (parse_arguments env ts st) = Inr () \<and>
         opened_paths (new_events st (parse_arguments env ts st)) = ts \<and>
         (PHOEBE_FILEFLAG (final (parse_arguments env ts st)),
          PHOEBE_FILENAME (final (parse_arguments env ts st))) =
           (case loaded_paths (new_events st (parse_arguments env ts st)) of
              [] \<Rightarrow> (PHOEBE_FILEFLAG st, PHOEBE_FILENAME st)
            | q # qs \<Rightarrow> (True, last (q # qs))) \<and>
         refreshes (new_events st (parse_arguments env ts st)) =
           length (loaded_paths (new_events st (parse_arguments env ts st))) \<and>
         length (diagnostics (new_events st (parse_arguments env ts st))) +
           length (loaded_paths (new_events st (parse_arguments env ts st))) = length ts \<and>
         (\<not> has_leading_dash p \<and> phoebe_open_parameter_file env (trace st) p = SUCCESS \<longrightarrow>
            parse_argument env p st =
              Inr ((), \<lparr>PHOEBE_FILEFLAG = True, PHOEBE_FILENAME = p,
                        trace = trace st @ [PhoebeOpenParameterFile p SUCCESS,
                                            GuiReinitTreeviews, GuiSetValuesToWidgets]\<rparr>)) \<and>
         (phoebe_open_parameter_file env (trace st) ''badpath.phoebe'' = s \<and> s \<noteq> SUCCESS \<and>
          phoebe_open_parameter_file env
            (trace st @ [PhoebeOpenParameterFile ''badpath.phoebe'' s,
                         PhoebeGuiOutput (phoebe_error env s)]) ''model.phoebe'' = SUCCESS \<longrightarrow>
            parse_arguments env [''badpath.phoebe'', ''model.phoebe''] st =
              Inr ((), \<lparr>PHOEBE_FILEFLAG = True, PHOEBE_FILENAME = ''model.phoebe'',
                        trace = trace st @ [PhoebeOpenParameterFile ''badpath.phoebe'' s,
                                            PhoebeGuiOutput (phoebe_error env s),
                                            PhoebeOpenParameterFile ''model.phoebe'' SUCCESS,
                                            GuiReinitTreeviews, GuiSetValuesToWidgets]\<rparr>))"
proof -
  from parse_arguments_paths [OF assms, of env st] obtain st' es where
    run: "parse_arguments env ts st = Inr ((), st')" and
    tr: "trace st' = trace st @ es" and
    op: "opened_paths es = ts" and
    gl: "(PHOEBE_FILEFLAG st', PHOEBE_FILENAME st') =
           (case loaded_paths es of [] \<Rightarrow> (PHOEBE_FILEFLAG st, PHOEBE_FILENAME st)
            | q # qs \<Rightarrow> (True, last (q # qs)))" and
    rf: "refreshes es = length (loaded_paths es)" and
    dg: "length (diagnostics es) + length (loaded_paths es) = length ts"
    by blast
  have new: "new_events st (parse_arguments env ts st) = es"
    by (simp add: run tr)
  have fin: "final (parse_arguments env ts st) = st'"
    by (simp add: run)
  have general: "outcome (parse_arguments env ts st) = Inr () \<and>
         opened_paths (new_events st (parse_arguments env ts st)) = ts \<and>
         (PHOEBE_FILEFLAG (final (parse_arguments env ts st)),
          PHOEBE_FILENAME (final (parse_arguments env ts st))) =
           (case loaded_paths (new_events st (parse_arguments env ts st)) of
              [] \<Rightarrow> (PHOEBE_FILEFLAG st, PHOEBE_FILENAME st)
            | q # qs \<Rightarrow> (True, last (q # qs))) \<and>
         refreshes (new_events st (parse_arguments env ts st)) =
           length (loaded_paths (new_events st (parse_arguments env ts st))) \<and>
         length (diagnostics (new_events st (parse_arguments env ts st))) +
           length (loaded_paths (new_events st (parse_arguments env ts st))) = length ts"
    unfolding new fin using op gl rf dg by (simp add: run)
  have one: "parse_argument env p st =
              Inr ((), \<lparr>PHOEBE_FILEFLAG = True, PHOEBE_FILENAME = p,
                        trace = trace st @ [PhoebeOpenParameterFile p SUCCESS,
                                            GuiReinitTreeviews, GuiSetValuesToWidgets]\<rparr>)"
    if "\<not> has_leading_dash p \<and> phoebe_open_parameter_file env (trace st) p = SUCCESS"
    using that by (simp add: parse_argument_path open_argument_success emits_def)
  have bad: "\<not> has_leading_dash ''badpath.phoebe''" and model: "\<not> has_leading_dash ''model.phoebe''"
    by (simp_all add: has_leading_dash_def)
  have two: "parse_arguments env [''badpath.phoebe'', ''model.phoebe''] st =
              Inr ((), \<lparr>PHOEBE_FILEFLAG = True, PHOEBE_FILENAME = ''model.phoebe'',
                        trace = trace st @ [PhoebeOpenParameterFile ''badpath.phoebe'' s,
                                            PhoebeGuiOutput (phoebe_error env s),
                                            PhoebeOpenParameterFile ''model.phoebe'' SUCCESS,
                                            GuiReinitTreeviews, GuiSetValuesToWidgets]\<rparr>)"
    if "phoebe_open_parameter_file env (trace st) ''badpath.phoebe'' = s \<and> s \<noteq> SUCCESS \<and>
          phoebe_open_parameter_file env
            (trace st @ [PhoebeOpenParameterFile ''badpath.phoebe'' s,
                         PhoebeGuiOutput (phoebe_error env s)]) ''model.phoebe'' = SUCCESS"
  proof -
    have first: "parse_argument env ''badpath.phoebe'' st =
        Inr ((), emits [PhoebeOpenParameterFile ''badpath.phoebe'' s,
                        PhoebeGuiOutput (phoebe_error env s)] st)"
      using that by (simp add: parse_argument_path [OF bad] open_argument_failure)
    have second: "parse_argument env ''model.phoebe''
        (emits [PhoebeOpenParameterFile ''badpath.phoebe'' s,
                PhoebeGuiOutput (phoebe_error env s)] st) =
        Inr ((), \<lparr>PHOEBE_FILEFLAG = True, PHOEBE_FILENAME = ''model.phoebe'',
                        trace = trace st @ [PhoebeOpenParameterFile ''badpath.phoebe'' s,
                                            PhoebeGuiOutput (phoebe_error env s),
                                            PhoebeOpenParameterFile ''model.phoebe'' SUCCESS,
                                            GuiReinitTreeviews, GuiSetValuesToWidgets]\<rparr>)"
      using that by (simp add: parse_argument_path [OF model] open_argument_success emits_def)
    show ?thesis
      by (simp add: first second)
  qed
  from general one two show ?thesis by blast
qed

theorem loaded_files_set_session_witness:
  "list_all (\<lambda>t. \<not> has_leading_dash t) [''badpath.phoebe'', ''model.phoebe''] \<and>
   \<not> has_leading_dash ''model.phoebe'' \<and>
   phoebe_open_parameter_file example_env (trace example_session) ''model.phoebe'' = SUCCESS \<and>
   phoebe_open_parameter_file example_env (trace example_session) ''badpath.phoebe'' = ERROR_OTHER 1 \<and>
   ERROR_OTHER 1 \<noteq> SUCCESS \<and>
   phoebe_open_parameter_file example_env
     (trace example_session @ [PhoebeOpenParameterFile ''badpath.phoebe'' (ERROR_OTHER 1),
        PhoebeGuiOutput (phoebe_error example_env (ERROR_OTHER 1))]) ''model.phoebe'' = SUCCESS \<and>
   parse_arguments example_env [''badpath.phoebe'', ''model.phoebe''] example_session =
     Inr ((), \<lparr>PHOEBE_FILEFLAG = True, PHOEBE_FILENAME = ''model.phoebe'',
               trace = [PhoebeOpenParameterFile ''badpath.phoebe'' (ERROR_OTHER 1),
                        PhoebeGuiOutput ''Error opening parameter file'',
                        PhoebeOpenParameterFile ''model.phoebe'' SUCCESS,
                        GuiReinitTreeviews, GuiSetValuesToWidgets]\<rparr>) \<and>
   diagnostics (new_events example_session
     (parse_arguments example_env [''badpath.phoebe'', ''model.phoebe''] example_session)) =
     [''Error opening parameter file'']"
proof -
  have h: "list_all (\<lambda>t. \<not> has_leading_dash t) [''badpath.phoebe'', ''model.phoebe'']"
    by (simp add: has_leading_dash_def)
  have m: "\<not> has_leading_dash ''model.phoebe''"
    by (simp add: has_leading_dash_def)
  have o1: "phoebe_open_parameter_file example_env (trace example_session) ''model.phoebe'' = SUCCESS"
    by (simp add: example_env_def)
  have o2: "phoebe_open_parameter_file example_env (trace example_session) ''badpath.phoebe''
              = ERROR_OTHER 1"
    by (simp add: example_env_def)
  have o3: "ERROR_OTHER 1 \<noteq> SUCCESS"
    by simp
  have o4: "phoebe_open_parameter_file example_env
     (trace example_session @ [PhoebeOpenParameterFile ''badpath.phoebe'' (ERROR_OTHER 1),
        PhoebeGuiOutput (phoebe_error example_env (ERROR_OTHER 1))]) ''model.phoebe'' = SUCCESS"
    by (simp add: example_env_def)
  have e: "phoebe_error example_env (ERROR_OTHER 1) = ''Error opening parameter file''"
    by (simp add: example_env_def)
  have t: "trace example_session = []"
    by (simp add: example_session_def)
  have run: "parse_arguments example_env [''badpath.phoebe'', ''model.phoebe''] example_session =
     Inr ((), \<lparr>PHOEBE_FILEFLAG = True, PHOEBE_FILENAME = ''model.phoebe'',
               trace = [PhoebeOpenParameterFile ''badpath.phoebe'' (ERROR_OTHER 1),
                        PhoebeGuiOutput ''Error opening parameter file'',
                        PhoebeOpenParameterFile ''model.phoebe'' SUCCESS,
                        GuiReinitTreeviews, GuiSetValuesToWidgets]\<rparr>)"
  proof -
    have "parse_arguments example_env [''badpath.phoebe'', ''model.phoebe''] example_session =
      Inr ((), \<lparr>PHOEBE_FILEFLAG = True, PHOEBE_FILENAME = ''model.phoebe'',
                trace = trace example_session @
                  [PhoebeOpenParameterFile ''badpath.phoebe'' (ERROR_OTHER 1),
                   PhoebeGuiOutput (phoebe_error example_env (ERROR_OTHER 1)),
                   PhoebeOpenParameterFile ''model.phoebe'' SUCCESS,
                   GuiReinitTreeviews, GuiSetValuesToWidgets]\<rparr>)"
      using loaded_files_set_session
        [OF h, of example_env example_session "''model.phoebe''" "ERROR_OTHER 1"] o2 o3 o4
      by blast
    then show ?thesis
      by (simp only: e t append_Nil)
  qed
  have "diagnostics (new_events example_session
     (parse_arguments example_env [''badpath.phoebe'', ''model.phoebe''] example_session)) =
     [''Error opening parameter file'']"
    unfolding run by (simp add: t)
  with h m o1 o2 o3 o4 run show ?thesis by blast
qed


subsection \<open>The order of the calls of main\<close>

lemma main_failure:
  "phoebe_init env \<noteq> SUCCESS \<Longrightarrow>
   events (main env argv flag name) =
     [GtkSetLocale, GtkInit, GladeInit, PhoebeInit,
      Printf (phoebe_gui_error env (phoebe_init env))]"
  by (simp add: main_def emit_def emits_def)

lemma main_success_prefix:
  assumes "phoebe_init env = SUCCESS"
  shows "\<exists>es. events (main env argv flag name) =
           [GtkSetLocale, GtkInit, GladeInit, PhoebeInit,
            PhoebeConfigEntryAdd TYPE_BOOL ''GUI_CONFIRM_ON_OVERWRITE'' True,
            PhoebeConfigEntryAdd TYPE_BOOL ''GUI_BEEP_AFTER_PLOT_AND_FIT'' False,
            PhoebeConfigure] @ es"
proof -
  let ?st = "before_parsing flag name"
  let ?ts = "drop 1 argv"
  obtain es where es: "events (parse_arguments env ?ts ?st) = trace ?st @ es"
    using parse_arguments_trace by blast
  show ?thesis
  proof (cases "parse_arguments env ?ts ?st")
    case (Inl x)
    with es show ?thesis
      by (cases x)
         (simp add: main_initialised_eq [OF assms] parse_startup_line_def before_parsing_def
            gui_options_def)
  next
    case (Inr y)
    with es show ?thesis
      by (cases y)
         (simp add: main_initialised_eq [OF assms] parse_startup_line_def before_parsing_def
            gui_options_def run_and_quit_eq announce_configuration_eq)
  qed
qed

lemma occurrence_after_prefix:
  assumes "e \<notin> set pre" and "k < length (pre @ rest)" and "(pre @ rest) ! k = e"
  shows "set pre \<subseteq> set (take k (pre @ rest))"
proof -
  have "\<not> k < length pre"
  proof
    assume "k < length pre"
    then have "(pre @ rest) ! k \<in> set pre"
      by (simp add: nth_append)
    with assms show False by simp
  qed
  then show ?thesis by auto
qed

text \<open>
  C6. In every run of \<^verbatim>\<open>main\<close>, whenever \<^verbatim>\<open>phoebe_configure\<close> is called, the two
  options \<^verbatim>\<open>GUI_CONFIRM_ON_OVERWRITE\<close> (with default true) and
  \<^verbatim>\<open>GUI_BEEP_AFTER_PLOT_AND_FIT\<close> (with default false) have been registered before the
  call. When the engine initialisation succeeds, the two registrations and the call of
  \<^verbatim>\<open>phoebe_configure\<close> are the first things that follow it, whatever status
  \<^verbatim>\<open>phoebe_configure\<close> then returns.
\<close>

theorem options_registered_before_configure:
  "(\<forall>k < length (events (main env argv flag name)).
      events (main env argv flag name) ! k = PhoebeConfigure \<longrightarrow>
        PhoebeConfigEntryAdd TYPE_BOOL ''GUI_CONFIRM_ON_OVERWRITE'' True
          \<in> set (take k (events (main env argv flag name))) \<and>
        PhoebeConfigEntryAdd TYPE_BOOL ''GUI_BEEP_AFTER_PLOT_AND_FIT'' False
          \<in> set (take k (events (main env argv flag name)))) \<and>
   (phoebe_init env = SUCCESS \<longrightarrow>
      take 7 (events (main env argv flag name)) =
        [GtkSetLocale, GtkInit, GladeInit, PhoebeInit,
         PhoebeConfigEntryAdd TYPE_BOOL ''GUI_CONFIRM_ON_OVERWRITE'' True,
         PhoebeConfigEntryAdd TYPE_BOOL ''GUI_BEEP_AFTER_PLOT_AND_FIT'' False,
         PhoebeConfigure])"
proof (cases "phoebe_init env = SUCCESS")
  case True
  let ?pre = "[GtkSetLocale, GtkInit, GladeInit, PhoebeInit,
               PhoebeConfigEntryAdd TYPE_BOOL ''GUI_CONFIRM_ON_OVERWRITE'' True,
               PhoebeConfigEntryAdd TYPE_BOOL ''GUI_BEEP_AFTER_PLOT_AND_FIT'' False]"
  from main_success_prefix [OF True, of argv flag name] obtain es where
    "events (main env argv flag name) =
       [GtkSetLocale, GtkInit, GladeInit, PhoebeInit,
        PhoebeConfigEntryAdd TYPE_BOOL ''GUI_CONFIRM_ON_OVERWRITE'' True,
        PhoebeConfigEntryAdd TYPE_BOOL ''GUI_BEEP_AFTER_PLOT_AND_FIT'' False,
        PhoebeConfigure] @ es"
    by blast
  then have tr: "events (main env argv flag name) = ?pre @ (PhoebeConfigure # es)"
    by simp
  have "set ?pre \<subseteq> set (take k (events (main env argv flag name)))"
    if "k < length (events (main env argv flag name))"
      and "events (main env argv flag name) ! k = PhoebeConfigure" for k
    using that unfolding tr by (intro occurrence_after_prefix) simp_all
  then have first: "\<forall>k < length (events (main env argv flag name)).
      events (main env argv flag name) ! k = PhoebeConfigure \<longrightarrow>
        PhoebeConfigEntryAdd TYPE_BOOL ''GUI_CONFIRM_ON_OVERWRITE'' True
          \<in> set (take k (events (main env argv flag name))) \<and>
        PhoebeConfigEntryAdd TYPE_BOOL ''GUI_BEEP_AFTER_PLOT_AND_FIT'' False
          \<in> set (take k (events (main env argv flag name)))"
    by auto
  have "take 7 (events (main env argv flag name)) = ?pre @ [PhoebeConfigure]"
    unfolding tr by simp
  with first show ?thesis by simp
next
  case False
  have "PhoebeConfigure \<notin> set (events (main env argv flag name))"
    by (simp add: main_failure [OF False])
  then have "events (main env argv flag name) ! k \<noteq> PhoebeConfigure"
    if "k < length (events (main env argv flag name))" for k
    using that nth_mem by metis
  with False show ?thesis by simp
qed

theorem options_registered_before_configure_witness:
  "(6::nat) < length (events (main example_env [''phoebe-gui'', ''model.phoebe''] False ''Undefined'')) \<and>
   events (main example_env [''phoebe-gui'', ''model.phoebe''] False ''Undefined'') ! 6 = PhoebeConfigure \<and>
   PhoebeConfigEntryAdd TYPE_BOOL ''GUI_CONFIRM_ON_OVERWRITE'' True
     \<in> set (take 6 (events (main example_env [''phoebe-gui'', ''model.phoebe''] False ''Undefined''))) \<and>
   PhoebeConfigEntryAdd TYPE_BOOL ''GUI_BEEP_AFTER_PLOT_AND_FIT'' False
     \<in> set (take 6 (events (main example_env [''phoebe-gui'', ''model.phoebe''] False ''Undefined''))) \<and>
   phoebe_init example_env = SUCCESS \<and>
   take 7 (events (main example_env [''phoebe-gui'', ''model.phoebe''] False ''Undefined'')) =
        [GtkSetLocale, GtkInit, GladeInit, PhoebeInit,
         PhoebeConfigEntryAdd TYPE_BOOL ''GUI_CONFIRM_ON_OVERWRITE'' True,
         PhoebeConfigEntryAdd TYPE_BOOL ''GUI_BEEP_AFTER_PLOT_AND_FIT'' False,
         PhoebeConfigure]"
proof -
  let ?tr = "events (main example_env [''phoebe-gui'', ''model.phoebe''] False ''Undefined'')"
  have i: "phoebe_init example_env = SUCCESS"
    by (simp add: example_env_def)
  have tr: "?tr = [GtkSetLocale, GtkInit, GladeInit, PhoebeInit,
         PhoebeConfigEntryAdd TYPE_BOOL ''GUI_CONFIRM_ON_OVERWRITE'' True,
         PhoebeConfigEntryAdd TYPE_BOOL ''GUI_BEEP_AFTER_PLOT_AND_FIT'' False,
         PhoebeConfigure, PhoebeGuiInit,
         PhoebeOpenParameterFile ''model.phoebe'' SUCCESS,
         GuiReinitTreeviews, GuiSetValuesToWidgets,
         GtkMain, PhoebeGuiQuit, PhoebeQuit]"
    by (simp add: main_initialised_eq [OF i] parse_startup_line_def before_parsing_def
        gui_options_def parse_argument_cases open_argument_cases is_help_def is_version_def
        has_leading_dash_def run_and_quit_eq announce_configuration_eq emits_def)
       (simp add: example_env_def)
  have l: "(6::nat) < length ?tr"
    unfolding tr by simp
  have c: "?tr ! 6 = PhoebeConfigure"
    unfolding tr by simp
  note t = options_registered_before_configure
    [of example_env "[''phoebe-gui'', ''model.phoebe'']" False "''Undefined''"]
  from t l c have "PhoebeConfigEntryAdd TYPE_BOOL ''GUI_CONFIRM_ON_OVERWRITE'' True
     \<in> set (take 6 ?tr) \<and>
   PhoebeConfigEntryAdd TYPE_BOOL ''GUI_BEEP_AFTER_PLOT_AND_FIT'' False
     \<in> set (take 6 ?tr)"
    by blast
  moreover from t i have "take 7 ?tr =
        [GtkSetLocale, GtkInit, GladeInit, PhoebeInit,
         PhoebeConfigEntryAdd TYPE_BOOL ''GUI_CONFIRM_ON_OVERWRITE'' True,
         PhoebeConfigEntryAdd TYPE_BOOL ''GUI_BEEP_AFTER_PLOT_AND_FIT'' False,
         PhoebeConfigure]"
    by blast
  ultimately show ?thesis
    using l c i by blast
qed


subsection \<open>The teardown\<close>

lemma parse_argument_no_event_loop:
  "GtkMain \<notin> set (trace st) \<Longrightarrow> GtkMain \<notin> set (events (parse_argument env t st))"
  by (simp add: parse_argument_cases open_argument_cases usage_text_def version_text_def)

lemma parse_arguments_no_event_loop:
  "GtkMain \<notin> set (trace st) \<Longrightarrow> GtkMain \<notin> set (events (parse_arguments env ts st))"
proof (induction ts arbitrary: st)
  case Nil
  then show ?case by simp
next
  case (Cons t ts)
  from Cons.prems have step: "GtkMain \<notin> set (events (parse_argument env t st))"
    by (rule parse_argument_no_event_loop)
  show ?case
  proof (cases "parse_argument env t st")
    case (Inl x)
    with step show ?thesis by (cases x) simp
  next
    case (Inr y)
    with step Cons.IH show ?thesis by (cases y) simp
  qed
qed

lemma events_after_found:
  "e \<notin> set pre \<Longrightarrow> events_after e (pre @ e # rest) = rest"
  by (induction pre) (auto simp: events_after_def)

text \<open>
  C7, amended. Whenever a run of \<^verbatim>\<open>main\<close> reaches the event loop, then on its return
  the teardown of the GUI (\<^verbatim>\<open>phoebe_gui_quit\<close>) is run first and the teardown of the
  engine (\<^verbatim>\<open>phoebe_quit\<close>) second: these two calls, in this order, are all that follows
  the event loop, and the process ends with status 0. The event loop is reached whenever
  the engine initialisation succeeds and \<^verbatim>\<open>parse_startup_line\<close> returns.
\<close>

theorem gui_teardown_then_engine_teardown:
  "(GtkMain \<in> set (events (main env argv flag name)) \<longrightarrow>
      events_after GtkMain (events (main env argv flag name)) = [PhoebeGuiQuit, PhoebeQuit] \<and>
      outcome (main env argv flag name) = Inl 0) \<and>
   (phoebe_init env = SUCCESS \<and>
    outcome (parse_startup_line env argv (before_parsing flag name)) = Inr SUCCESS \<longrightarrow>
      GtkMain \<in> set (events (main env argv flag name)))"
proof (cases "phoebe_init env = SUCCESS")
  case False
  then have "GtkMain \<notin> set (events (main env argv flag name))"
    by (simp add: main_failure)
  with False show ?thesis by simp
next
  case True
  let ?st = "before_parsing flag name"
  have clean: "GtkMain \<notin> set (trace ?st)"
    by (simp add: before_parsing_def gui_options_def)
  then have parsed: "GtkMain \<notin> set (events (parse_arguments env (drop 1 argv) ?st))"
    by (rule parse_arguments_no_event_loop)
  show ?thesis
  proof (cases "parse_arguments env (drop 1 argv) ?st")
    case (Inl x)
    with parsed show ?thesis
      by (cases x) (simp add: main_initialised_eq [OF True] parse_startup_line_def)
  next
    case (Inr y)
    obtain u st4 where y: "y = (u, st4)" by (cases y)
    let ?ann = "announce_configuration (phoebe_configure env) (configswitch (phoebe_configure env)) st4"
    from parsed Inr y have "GtkMain \<notin> set (trace st4)"
      by simp
    then have ann: "GtkMain \<notin> set (trace ?ann)"
      by (simp add: announce_configuration_eq welcome_notice_def legacy_notice_def
          recent_notice_def)
    have run: "main env argv flag name =
                 Inl (0, emits [GtkMain, PhoebeGuiQuit, PhoebeQuit] ?ann)"
      using Inr y
      by (simp add: main_initialised_eq [OF True] parse_startup_line_def run_and_quit_eq)
    have "events (main env argv flag name) = trace ?ann @ GtkMain # [PhoebeGuiQuit, PhoebeQuit]"
      by (simp add: run)
    with events_after_found [OF ann, of "[PhoebeGuiQuit, PhoebeQuit]"]
    have "events_after GtkMain (events (main env argv flag name)) =
        [PhoebeGuiQuit, PhoebeQuit]"
      by simp
    moreover have "GtkMain \<in> set (events (main env argv flag name))"
      by (simp add: run)
    moreover have "outcome (main env argv flag name) = Inl 0"
      by (simp add: run)
    ultimately show ?thesis by simp
  qed
qed

theorem gui_teardown_then_engine_teardown_witness:
  "GtkMain \<in> set (events (main example_env [''phoebe-gui'', ''model.phoebe''] False ''Undefined'')) \<and>
   events_after GtkMain (events (main example_env [''phoebe-gui'', ''model.phoebe''] False ''Undefined''))
     = [PhoebeGuiQuit, PhoebeQuit] \<and>
   outcome (main example_env [''phoebe-gui'', ''model.phoebe''] False ''Undefined'') = Inl 0 \<and>
   phoebe_init example_env = SUCCESS \<and>
   outcome (parse_startup_line example_env [''phoebe-gui'', ''model.phoebe'']
              (before_parsing False ''Undefined'')) = Inr SUCCESS"
proof -
  have i: "phoebe_init example_env = SUCCESS"
    by (simp add: example_env_def)
  have p: "outcome (parse_startup_line example_env [''phoebe-gui'', ''model.phoebe'']
              (before_parsing False ''Undefined'')) = Inr SUCCESS"
    by (simp add: parse_startup_line_def parse_argument_cases open_argument_cases is_help_def
        is_version_def has_leading_dash_def)
  note t = gui_teardown_then_engine_teardown
    [of example_env "[''phoebe-gui'', ''model.phoebe'']" False "''Undefined''"]
  from t i p
  have g: "GtkMain \<in> set (events (main example_env [''phoebe-gui'', ''model.phoebe''] False ''Undefined''))"
    by blast
  with t have "events_after GtkMain
      (events (main example_env [''phoebe-gui'', ''model.phoebe''] False ''Undefined''))
     = [PhoebeGuiQuit, PhoebeQuit] \<and>
   outcome (main example_env [''phoebe-gui'', ''model.phoebe''] False ''Undefined'') = Inl 0"
    by blast
  with g i p show ?thesis by blast
qed

text \<open>
  C7 as stated fails: in the run without arguments and with a current configuration the
  two calls that follow the event loop are \<^verbatim>\<open>phoebe_gui_quit\<close> and then
  \<^verbatim>\<open>phoebe_quit\<close>, not the engine's teardown followed by the GUI's.
\<close>

theorem engine_teardown_first_counterexample:
  "events (main example_env [''phoebe-gui''] False ''Undefined'') =
     [GtkSetLocale, GtkInit, GladeInit, PhoebeInit,
      PhoebeConfigEntryAdd TYPE_BOOL ''GUI_CONFIRM_ON_OVERWRITE'' True,
      PhoebeConfigEntryAdd TYPE_BOOL ''GUI_BEEP_AFTER_PLOT_AND_FIT'' False,
      PhoebeConfigure, PhoebeGuiInit, GtkMain, PhoebeGuiQuit, PhoebeQuit] \<and>
   events_after GtkMain (events (main example_env [''phoebe-gui''] False ''Undefined''))
     \<noteq> [PhoebeQuit, PhoebeGuiQuit]"
proof -
  have i: "phoebe_init example_env = SUCCESS"
    by (simp add: example_env_def)
  have c: "phoebe_configure example_env = SUCCESS"
    by (simp add: example_env_def)
  have "events (main example_env [''phoebe-gui''] False ''Undefined'') =
     [GtkSetLocale, GtkInit, GladeInit, PhoebeInit,
      PhoebeConfigEntryAdd TYPE_BOOL ''GUI_CONFIRM_ON_OVERWRITE'' True,
      PhoebeConfigEntryAdd TYPE_BOOL ''GUI_BEEP_AFTER_PLOT_AND_FIT'' False,
      PhoebeConfigure, PhoebeGuiInit, GtkMain, PhoebeGuiQuit, PhoebeQuit]"
    by (simp add: main_initialised_eq [OF i] c parse_startup_line_def before_parsing_def
        gui_options_def run_and_quit_eq announce_configuration_eq)
  then show ?thesis
    by (simp add: events_after_def)
qed

subsection \<open>Statuses of the configuration that the code does not name\<close>

lemma parse_arguments_configure:
  "parse_arguments (env\<lparr>phoebe_configure := s\<rparr>) ts st = parse_arguments env ts st"
  by (induction ts arbitrary: st)
     (simp_all add: parse_argument_cases open_argument_cases usage_text_def version_text_def
        bind_proc_def split: sum.splits)

text \<open>
  C9. Let \<^verbatim>\<open>phoebe_configure\<close> return a status \<open>s\<close> that is none of the three conditions
  the code names. Then \<^verbatim>\<open>configswitch\<close> stays false, lines 199 to 207 do nothing (no
  notice, no dialog, no diagnostic), and the whole run of \<^verbatim>\<open>main\<close> is the run with
  status \<^verbatim>\<open>SUCCESS\<close>: the same events, the same globals, the same end.
\<close>

theorem unnamed_status_runs_as_current:
  assumes "s \<noteq> ERROR_PHOEBE_CONFIG_SUPPORTED_FILE"
    and "s \<noteq> ERROR_PHOEBE_CONFIG_LEGACY_FILE"
    and "s \<noteq> ERROR_PHOEBE_CONFIG_NOT_FOUND"
  shows "\<not> configswitch s \<and>
         announce_configuration s (configswitch s) st = st \<and>
         main (env\<lparr>phoebe_configure := s\<rparr>) argv flag name =
           main (env\<lparr>phoebe_configure := SUCCESS\<rparr>) argv flag name"
proof -
  have sw: "\<not> configswitch s"
    using assms by (simp add: configswitch_def)
  have ann: "announce_configuration s (configswitch s) st' = st'" for st'
    using assms by (simp add: announce_configuration_eq)
  have cur: "announce_configuration SUCCESS (configswitch SUCCESS) st' = st'" for st'
    by (simp add: announce_configuration_eq)
  have "main (env\<lparr>phoebe_configure := s\<rparr>) argv flag name =
           main (env\<lparr>phoebe_configure := SUCCESS\<rparr>) argv flag name"
  proof (cases "phoebe_init env = SUCCESS")
    case True
    then show ?thesis
      by (simp add: main_initialised_eq parse_startup_line_def parse_arguments_configure ann cur)
  next
    case False
    then show ?thesis
      by (simp add: main_def)
  qed
  with sw ann show ?thesis by simp
qed

theorem unnamed_status_runs_as_current_witness:
  "ERROR_OTHER 3 \<noteq> ERROR_PHOEBE_CONFIG_SUPPORTED_FILE \<and>
   ERROR_OTHER 3 \<noteq> ERROR_PHOEBE_CONFIG_LEGACY_FILE \<and>
   ERROR_OTHER 3 \<noteq> ERROR_PHOEBE_CONFIG_NOT_FOUND \<and>
   \<not> configswitch (ERROR_OTHER 3) \<and>
   main (example_env\<lparr>phoebe_configure := ERROR_OTHER 3\<rparr>) [''phoebe-gui''] False ''Undefined'' =
     Inl (0, \<lparr>PHOEBE_FILEFLAG = False, PHOEBE_FILENAME = ''Undefined'',
              trace = [GtkSetLocale, GtkInit, GladeInit, PhoebeInit,
                       PhoebeConfigEntryAdd TYPE_BOOL ''GUI_CONFIRM_ON_OVERWRITE'' True,
                       PhoebeConfigEntryAdd TYPE_BOOL ''GUI_BEEP_AFTER_PLOT_AND_FIT'' False,
                       PhoebeConfigure, PhoebeGuiInit, GtkMain, PhoebeGuiQuit, PhoebeQuit]\<rparr>)"
proof -
  have h1: "ERROR_OTHER 3 \<noteq> ERROR_PHOEBE_CONFIG_SUPPORTED_FILE"
    and h2: "ERROR_OTHER 3 \<noteq> ERROR_PHOEBE_CONFIG_LEGACY_FILE"
    and h3: "ERROR_OTHER 3 \<noteq> ERROR_PHOEBE_CONFIG_NOT_FOUND"
    by simp_all
  note t = unnamed_status_runs_as_current
    [OF h1 h2 h3, of example_session example_env "[''phoebe-gui'']" False "''Undefined''"]
  have i: "phoebe_init (example_env\<lparr>phoebe_configure := SUCCESS\<rparr>) = SUCCESS"
    by (simp add: example_env_def)
  have "main (example_env\<lparr>phoebe_configure := SUCCESS\<rparr>) [''phoebe-gui''] False ''Undefined'' =
     Inl (0, \<lparr>PHOEBE_FILEFLAG = False, PHOEBE_FILENAME = ''Undefined'',
              trace = [GtkSetLocale, GtkInit, GladeInit, PhoebeInit,
                       PhoebeConfigEntryAdd TYPE_BOOL ''GUI_CONFIRM_ON_OVERWRITE'' True,
                       PhoebeConfigEntryAdd TYPE_BOOL ''GUI_BEEP_AFTER_PLOT_AND_FIT'' False,
                       PhoebeConfigure, PhoebeGuiInit, GtkMain, PhoebeGuiQuit, PhoebeQuit]\<rparr>)"
    by (simp add: main_initialised_eq [OF i] parse_startup_line_def before_parsing_def
        gui_options_def run_and_quit_eq announce_configuration_eq emits_def)
  with t have "main (example_env\<lparr>phoebe_configure := ERROR_OTHER 3\<rparr>) [''phoebe-gui''] False ''Undefined'' =
     Inl (0, \<lparr>PHOEBE_FILEFLAG = False, PHOEBE_FILENAME = ''Undefined'',
              trace = [GtkSetLocale, GtkInit, GladeInit, PhoebeInit,
                       PhoebeConfigEntryAdd TYPE_BOOL ''GUI_CONFIRM_ON_OVERWRITE'' True,
                       PhoebeConfigEntryAdd TYPE_BOOL ''GUI_BEEP_AFTER_PLOT_AND_FIT'' False,
                       PhoebeConfigure, PhoebeGuiInit, GtkMain, PhoebeGuiQuit, PhoebeQuit]\<rparr>)"
    by simp
  with t h1 h2 h3 show ?thesis by blast
qed

subsection \<open>The exit status\<close>

lemma main_exit_status:
  "outcome (main env argv flag name) = Inl 0"
proof (cases "phoebe_init env = SUCCESS")
  case False
  then show ?thesis by (simp add: main_def)
next
  case True
  show ?thesis
  proof (cases "parse_arguments env (drop 1 argv) (before_parsing flag name)")
    case (Inl x)
    with parse_arguments_outcome [of env "drop 1 argv" "before_parsing flag name"]
    show ?thesis
      by (cases x) (simp add: main_initialised_eq [OF True] parse_startup_line_def)
  next
    case (Inr y)
    then show ?thesis
      by (cases y) (simp add: main_initialised_eq [OF True] parse_startup_line_def run_and_quit_eq)
  qed
qed

text \<open>
  C10. When \<^verbatim>\<open>phoebe_init\<close> returns a status other than \<^verbatim>\<open>SUCCESS\<close>, the process
  ends with exit status 0; and so does the run in which \<^verbatim>\<open>phoebe_init\<close> returns
  \<^verbatim>\<open>SUCCESS\<close>, so that the exit status does not tell the two apart.
\<close>

theorem init_failure_exits_with_zero:
  assumes "phoebe_init env \<noteq> SUCCESS"
  shows "outcome (main env argv flag name) = Inl 0 \<and>
         outcome (main (env\<lparr>phoebe_init := SUCCESS\<rparr>) argv flag name) = Inl 0"
proof -
  have "outcome (main env argv flag name) = Inl 0"
    using assms by (simp add: main_def)
  then show ?thesis
    by (simp add: main_exit_status)
qed

theorem init_failure_exits_with_zero_witness:
  "phoebe_init (example_env\<lparr>phoebe_init := ERROR_OTHER 7\<rparr>) \<noteq> SUCCESS \<and>
   outcome (main (example_env\<lparr>phoebe_init := ERROR_OTHER 7\<rparr>) [''phoebe-gui''] False ''Undefined'') = Inl 0 \<and>
   outcome (main (example_env\<lparr>phoebe_init := ERROR_OTHER 7, phoebe_init := SUCCESS\<rparr>)
              [''phoebe-gui''] False ''Undefined'') = Inl 0"
proof -
  have h: "phoebe_init (example_env\<lparr>phoebe_init := ERROR_OTHER 7\<rparr>) \<noteq> SUCCESS"
    by simp
  from init_failure_exits_with_zero [OF h, of "[''phoebe-gui'']" False "''Undefined''"] h
  show ?thesis by blast
qed

end
